theory Spec2Isabelle
  imports Main
begin

section \<open>JavaScript values and errors\<close>

text \<open>
  A JavaScript number that is an integer, or one of the special values: \<open>Num v\<close> is
  the double whose value is the integer \<open>v\<close> (every integer of size at most
  \<open>2^53\<close> is such a double), \<open>NegZero\<close> is \<open>-0\<close>, \<open>NaN\<close> is not-a-number.
\<close>

datatype js_number = NaN | Num int | NegZero | PosInfinity | NegInfinity

text \<open>
  A thrown value. \<open>Error msg ra\<close> is \<open>new Error(msg)\<close>, with the optional
  \<open>retryAfter\<close> property of \<open>GitHubRateLimitError\<close>; \<open>TypeError\<close> and
  \<open>SyntaxError\<close> are the runtime's own exceptions (a property read on
  \<open>undefined\<close> or \<open>null\<close>, a call of what is not a function, a conversion
  that fails, a body that is not JSON). Their message is the runtime's wording, for
  which the text given here stands; no statement below depends on it.
\<close>

datatype js_error =
    Error string "js_number option"
  | TypeError string
  | SyntaxError string

text \<open>
  Decimal rendering of an integer. A template literal prints a number this way when it
  is an integer of size at most \<open>2^53\<close>; larger numbers are printed from their
  shortest round-trip digits, and in exponent form from \<open>10^21\<close> on, which this
  function does not follow.
\<close>

definition digit_char :: "nat \<Rightarrow> char" where
  "digit_char d = ''0123456789'' ! (d mod 10)"

fun string_of_nat :: "nat \<Rightarrow> string" where
  "string_of_nat n =
     (if n < 10 then [digit_char n]
      else string_of_nat (n div 10) @ [digit_char (n mod 10)])"

declare string_of_nat.simps [simp del]

definition string_of_int :: "int \<Rightarrow> string" where
  "string_of_int i = (if i < 0 then CHR ''-'' # string_of_nat (nat (- i)) else string_of_nat (nat i))"

section \<open>The tracking store (server/schema.ts, server/tools/tracking.ts)\<close>

text \<open>
  A row of \<open>tracked_repositories\<close>: \<open>id\<close> is the integer primary key, \<open>isActive\<close>
  is an integer column (1 = active, 0 = inactive), \<open>createdAt\<close> a timestamp.
\<close>

record tracked_repository =
  repo_id :: int
  repo_owner :: string
  repo_name :: string
  repo_isActive :: int
  repo_createdAt :: int

text \<open>A row of \<open>tracked_projects\<close>; \<open>projectId\<close> carries a unique index.\<close>

record tracked_project =
  proj_id :: int
  proj_projectId :: string
  proj_title :: string
  proj_organizationLogin :: string
  proj_isActive :: int
  proj_createdAt :: int

subsection \<open>The statements the tools issue\<close>

text \<open>
  A table is the list of its rows in scan order. \<open>select().from(t).where(p)\<close> keeps the
  rows satisfying \<open>p\<close>, \<open>.limit(n)\<close> the first \<open>n\<close> of them.
\<close>

definition db_select :: "('r \<Rightarrow> bool) \<Rightarrow> 'r list \<Rightarrow> 'r list" where
  "db_select p tbl = filter p tbl"

definition db_limit :: "nat \<Rightarrow> 'r list \<Rightarrow> 'r list" where
  "db_limit n rows = take n rows"

text \<open>
  \<open>update(t).set(f).where(p).returning()\<close>: the new table and the rows as updated.
\<close>

definition db_update :: "('r \<Rightarrow> bool) \<Rightarrow> ('r \<Rightarrow> 'r) \<Rightarrow> 'r list \<Rightarrow> 'r list \<times> 'r list" where
  "db_update p f tbl = (map (\<lambda>r. if p r then f r else r) tbl, map f (filter p tbl))"

text \<open>\<open>delete(t).where(p)\<close>.\<close>

definition db_delete :: "('r \<Rightarrow> bool) \<Rightarrow> 'r list \<Rightarrow> 'r list" where
  "db_delete p tbl = filter (\<lambda>r. \<not> p r) tbl"

text \<open>
  An insert that gives no \<open>id\<close>: SQLite assigns an integer primary key one more than
  the largest in use, and 1 in an empty table.
\<close>

definition next_rowid :: "int list \<Rightarrow> int" where
  "next_rowid ids = (if ids = [] then 1 else Max (set ids) + 1)"

definition db_insert :: "'r \<Rightarrow> 'r list \<Rightarrow> 'r list \<times> 'r list" where
  "db_insert r tbl = (tbl @ [r], [r])"

subsection \<open>Tool inputs and outputs\<close>

record add_repository_context =
  ctx_owner :: string
  ctx_name :: string

text \<open>
  The tool's \<open>repository\<close> output. \<open>createdAt\<close> is \<open>toISOString()\<close> of the stored
  timestamp, a function of that timestamp alone; the model returns the timestamp.
\<close>

record repository_out =
  out_id :: int
  out_owner :: string
  out_name :: string
  out_isActive :: bool
  out_createdAt :: int

definition repository_out_of :: "tracked_repository \<Rightarrow> repository_out" where
  "repository_out_of r =
     \<lparr>out_id = repo_id r, out_owner = repo_owner r, out_name = repo_name r,
      out_isActive = (repo_isActive r = 1), out_createdAt = repo_createdAt r\<rparr>"

record add_project_context =
  ctx_projectId :: string
  ctx_title :: string
  ctx_organizationLogin :: string

record project_out =
  pout_id :: int
  pout_projectId :: string
  pout_title :: string
  pout_organizationLogin :: string
  pout_isActive :: bool
  pout_createdAt :: int

definition project_out_of :: "tracked_project \<Rightarrow> project_out" where
  "project_out_of p =
     \<lparr>pout_id = proj_id p, pout_projectId = proj_projectId p, pout_title = proj_title p,
      pout_organizationLogin = proj_organizationLogin p,
      pout_isActive = (proj_isActive p = 1), pout_createdAt = proj_createdAt p\<rparr>"

record remove_context =
  ctx_id :: int
  ctx_hardDelete :: bool

record remove_out =
  success :: bool
  deletedId :: int

text \<open>\<open>rows[0].field\<close> throws a TypeError on an empty array.\<close>

definition first_row :: "'r list \<Rightarrow> js_error + 'r" where
  "first_row rows =
     (case rows of [] \<Rightarrow> Inl (TypeError ''Cannot read properties of undefined'')
      | r # _ \<Rightarrow> Inr r)"

subsection \<open>ADD_TRACKED_REPOSITORY\<close>

text \<open>
  \<open>now\<close> is the value of \<open>new Date()\<close> at the insert. The result is the tool's
  return value, or the error it throws, with the table as the call leaves it.
\<close>

definition createAddTrackedRepository ::
  "int \<Rightarrow> tracked_repository list \<Rightarrow> add_repository_context
   \<Rightarrow> (js_error + repository_out) \<times> tracked_repository list" where
  "createAddTrackedRepository now tbl ctx =
     (let existing = db_limit 1 (db_select (\<lambda>r. repo_owner r = ctx_owner ctx) tbl);
          matchingRepo = List.find (\<lambda>r. repo_name r = ctx_name ctx) existing
      in case matchingRepo of
           Some m \<Rightarrow>
             if repo_isActive m = 0 then
               (let (tbl', updated) =
                      db_update (\<lambda>r. repo_id r = repo_id m) (\<lambda>r. r\<lparr>repo_isActive := 1\<rparr>) tbl
                in (map_sum id repository_out_of (first_row updated), tbl'))
             else (Inr (repository_out_of m), tbl)
         | None \<Rightarrow>
             (let (tbl', inserted) =
                    db_insert \<lparr>repo_id = next_rowid (map repo_id tbl), repo_owner = ctx_owner ctx,
                               repo_name = ctx_name ctx, repo_isActive = 1,
                               repo_createdAt = now\<rparr> tbl
              in (map_sum id repository_out_of (first_row inserted), tbl')))"

subsection \<open>REMOVE_TRACKED_REPOSITORY\<close>

definition repository_not_found :: "int \<Rightarrow> js_error" where
  "repository_not_found i =
     Error (''Tracked repository with ID '' @ string_of_int i @ '' not found'') None"

definition createRemoveTrackedRepository ::
  "tracked_repository list \<Rightarrow> remove_context
   \<Rightarrow> (js_error + remove_out) \<times> tracked_repository list" where
  "createRemoveTrackedRepository tbl ctx =
     (let existing = db_limit 1 (db_select (\<lambda>r. repo_id r = ctx_id ctx) tbl)
      in if length existing = 0 then (Inl (repository_not_found (ctx_id ctx)), tbl)
         else
           (let tbl' =
                  (if ctx_hardDelete ctx then db_delete (\<lambda>r. repo_id r = ctx_id ctx) tbl
                   else fst (db_update (\<lambda>r. repo_id r = ctx_id ctx)
                                       (\<lambda>r. r\<lparr>repo_isActive := 0\<rparr>) tbl))
            in (Inr \<lparr>success = True, deletedId = ctx_id ctx\<rparr>, tbl')))"

subsection \<open>ADD_TRACKED_PROJECT\<close>

definition createAddTrackedProject ::
  "int \<Rightarrow> tracked_project list \<Rightarrow> add_project_context
   \<Rightarrow> (js_error + project_out) \<times> tracked_project list" where
  "createAddTrackedProject now tbl ctx =
     (let existing = db_limit 1 (db_select (\<lambda>p. proj_projectId p = ctx_projectId ctx) tbl)
      in case existing of
           project # _ \<Rightarrow>
             if proj_isActive project = 0 then
               (let (tbl', updated) =
                      db_update (\<lambda>p. proj_id p = proj_id project)
                                (\<lambda>p. p\<lparr>proj_isActive := 1, proj_title := ctx_title ctx\<rparr>) tbl
                in (map_sum id project_out_of (first_row updated), tbl'))
             else
               (let (tbl', updated) =
                      db_update (\<lambda>p. proj_id p = proj_id project)
                                (\<lambda>p. p\<lparr>proj_title := ctx_title ctx\<rparr>) tbl
                in (map_sum id project_out_of (first_row updated), tbl'))
         | [] \<Rightarrow>
             (let (tbl', inserted) =
                    db_insert \<lparr>proj_id = next_rowid (map proj_id tbl),
                               proj_projectId = ctx_projectId ctx, proj_title = ctx_title ctx,
                               proj_organizationLogin = ctx_organizationLogin ctx,
                               proj_isActive = 1, proj_createdAt = now\<rparr> tbl
              in (map_sum id project_out_of (first_row inserted), tbl')))"

subsection \<open>REMOVE_TRACKED_PROJECT\<close>

definition project_not_found :: "int \<Rightarrow> js_error" where
  "project_not_found i =
     Error (''Tracked project with ID '' @ string_of_int i @ '' not found'') None"

definition createRemoveTrackedProject ::
  "tracked_project list \<Rightarrow> remove_context
   \<Rightarrow> (js_error + remove_out) \<times> tracked_project list" where
  "createRemoveTrackedProject tbl ctx =
     (let existing = db_limit 1 (db_select (\<lambda>p. proj_id p = ctx_id ctx) tbl)
      in if length existing = 0 then (Inl (project_not_found (ctx_id ctx)), tbl)
         else
           (let tbl' =
                  (if ctx_hardDelete ctx then db_delete (\<lambda>p. proj_id p = ctx_id ctx) tbl
                   else fst (db_update (\<lambda>p. proj_id p = ctx_id ctx)
                                       (\<lambda>p. p\<lparr>proj_isActive := 0\<rparr>) tbl))
            in (Inr \<lparr>success = True, deletedId = ctx_id ctx\<rparr>, tbl')))"

section \<open>The GitHub client (lib/github.ts)\<close>

subsection \<open>Values\<close>

text \<open>
  A JavaScript value as it comes out of \<open>JSON.parse\<close> or is built by a tool:
  \<open>JUndefined\<close> is \<open>undefined\<close> (a missing property reads as it), an object is the
  list of its properties in order, the first binding of a key being the property.
  Numbers are modelled as integers, and the model follows JavaScript for those of size at
  most \<open>2^53\<close>; a string is the list of its characters, with codes below 256.
\<close>

datatype js_value =
    JUndefined
  | JNull
  | JBool bool
  | JNum int
  | JStr string
  | JArr "js_value list"
  | JObj "(string \<times> js_value) list"

text \<open>Truthiness, as \<open>if (v)\<close>, \<open>!v\<close>, \<open>v || w\<close> and \<open>v ? a : b\<close> test it.\<close>

fun truthy :: "js_value \<Rightarrow> bool" where
  "truthy JUndefined = False"
| "truthy JNull = False"
| "truthy (JBool b) = b"
| "truthy (JNum n) = (n \<noteq> 0)"
| "truthy (JStr s) = (s \<noteq> [])"
| "truthy (JArr xs) = True"
| "truthy (JObj kvs) = True"

text \<open>\<open>Array.prototype.join\<close> on strings.\<close>

fun js_join :: "string \<Rightarrow> string list \<Rightarrow> string" where
  "js_join sep [] = []"
| "js_join sep [x] = x"
| "js_join sep (x # y # ys) = x @ sep @ js_join sep (y # ys)"

text \<open>
  The string a value turns into inside a template literal. An array joins its elements
  with commas, \<open>null\<close> and \<open>undefined\<close> elements giving the empty string; a
  number is written in decimal, as JavaScript does for integers of size at most
  \<open>2^53\<close>. The string of an object is the one \<open>Object.prototype.toString\<close>
  gives, which holds when the conversion does not throw (\<open>convertible\<close> below).
\<close>

fun to_string :: "js_value \<Rightarrow> string"
  and element_to_string :: "js_value \<Rightarrow> string" where
  "to_string JUndefined = ''undefined''"
| "to_string JNull = ''null''"
| "to_string (JBool b) = (if b then ''true'' else ''false'')"
| "to_string (JNum n) = string_of_int n"
| "to_string (JStr s) = s"
| "to_string (JArr xs) = js_join '','' (map element_to_string xs)"
| "to_string (JObj kvs) = ''[object Object]''"
| "element_to_string v =
     (case v of JUndefined \<Rightarrow> [] | JNull \<Rightarrow> [] | _ \<Rightarrow> to_string v)"

text \<open>
  Whether a value converts to a string or a number without throwing. An object parsed
  from JSON inherits \<open>toString\<close> and \<open>valueOf\<close> from \<open>Object.prototype\<close>;
  an own property \<open>toString\<close> hides the inherited method and is never callable, the
  inherited \<open>valueOf\<close> returns the object itself and an own one is not callable
  either, so the conversion of an object with an own \<open>toString\<close> throws a TypeError.
  An array converts each of its elements that is not \<open>null\<close> or \<open>undefined\<close>.
\<close>

fun convertible :: "js_value \<Rightarrow> bool" where
  "convertible (JArr xs) = list_all convertible xs"
| "convertible (JObj kvs) = (''toString'' \<notin> set (map fst kvs))"
| "convertible v = True"

definition cannot_convert :: js_error where
  "cannot_convert = TypeError ''Cannot convert object to primitive value''"

text \<open>
  A property read \<open>v.k\<close>, for the keys this program reads (none of them a built-in
  property of strings or arrays): a TypeError on \<open>undefined\<close> and \<open>null\<close>, the
  property of an object, \<open>undefined\<close> otherwise.
\<close>

fun get_prop :: "js_value \<Rightarrow> string \<Rightarrow> js_error + js_value" where
  "get_prop JUndefined k = Inl (TypeError (''Cannot read properties of undefined (reading '' @ k @ '')''))"
| "get_prop JNull k = Inl (TypeError (''Cannot read properties of null (reading '' @ k @ '')''))"
| "get_prop (JObj kvs) k = Inr (case map_of kvs k of None \<Rightarrow> JUndefined | Some v \<Rightarrow> v)"
| "get_prop v k = Inr JUndefined"

text \<open>A chain of property reads \<open>v.k1.k2...\<close>.\<close>

fun get_path :: "js_value \<Rightarrow> string list \<Rightarrow> js_error + js_value" where
  "get_path v [] = Inr v"
| "get_path v (k # ks) = (case get_prop v k of Inl e \<Rightarrow> Inl e | Inr w \<Rightarrow> get_path w ks)"

text \<open>Sequencing of steps that may throw.\<close>

definition on_success :: "js_error + 'a \<Rightarrow> ('a \<Rightarrow> js_error + 'b) \<Rightarrow> js_error + 'b" where
  "on_success r f = (case r of Inl e \<Rightarrow> Inl e | Inr v \<Rightarrow> f v)"

fun map_result :: "('a \<Rightarrow> js_error + 'b) \<Rightarrow> 'a list \<Rightarrow> js_error + 'b list" where
  "map_result f [] = Inr []"
| "map_result f (x # xs) =
     on_success (f x) (\<lambda>y. on_success (map_result f xs) (\<lambda>ys. Inr (y # ys)))"

text \<open>
  \<open>v.map(f)\<close>: only an array has a function \<open>map\<close>; a callback that throws ends the
  call. The result is the list of the callback's values.
\<close>

definition js_map :: "(js_value \<Rightarrow> js_error + js_value) \<Rightarrow> js_value \<Rightarrow> js_error + js_value list" where
  "js_map f v =
     (case v of
        JArr xs \<Rightarrow> map_result f xs
      | JUndefined \<Rightarrow> Inl (TypeError ''Cannot read properties of undefined (reading map)'')
      | JNull \<Rightarrow> Inl (TypeError ''Cannot read properties of null (reading map)'')
      | _ \<Rightarrow> Inl (TypeError ''map is not a function''))"

text \<open>\<open>String.prototype.includes\<close>.\<close>

fun string_includes :: "string \<Rightarrow> string \<Rightarrow> bool" where
  "string_includes [] t = (t = [])"
| "string_includes (c # s) t = (take (length t) (c # s) = t \<or> string_includes s t)"

subsection \<open>\<open>parseInt(s, 10)\<close>\<close>

text \<open>
  Header values are byte strings. The white space \<open>parseInt\<close> skips is, among bytes,
  TAB, LF, VT, FF, CR, SP and NBSP.
\<close>

definition is_white_space :: "char \<Rightarrow> bool" where
  "is_white_space c = (of_char c \<in> {9, 10, 11, 12, 13, 32, 160 :: nat})"

definition is_digit :: "char \<Rightarrow> bool" where
  "is_digit c = (48 \<le> (of_char c :: nat) \<and> (of_char c :: nat) \<le> 57)"

definition digit_value :: "char \<Rightarrow> nat" where
  "digit_value c = of_char c - 48"

text \<open>
  The double nearest to a natural number, ties going to the even significand: up to
  \<open>2^53\<close> the number itself, beyond it a multiple of the gap between doubles of that
  size, \<open>None\<close> when the result is \<open>Infinity\<close>.
\<close>

fun bit_length :: "nat \<Rightarrow> nat" where
  "bit_length n = (if n = 0 then 0 else Suc (bit_length (n div 2)))"

declare bit_length.simps [simp del]

definition round_to_double :: "nat \<Rightarrow> nat option" where
  "round_to_double v =
     (if v \<le> 2 ^ 53 then Some v
      else (let u = 2 ^ (bit_length v - 53);
                q = v div u;
                r = v mod u;
                m = (if 2 * r < u \<or> (2 * r = u \<and> even q) then q else q + 1)
            in if 2 ^ 1024 \<le> m * u then None else Some (m * u)))"

definition digits_to_nat :: "string \<Rightarrow> nat" where
  "digits_to_nat Z = foldl (\<lambda>a c. 10 * a + digit_value c) 0 Z"

text \<open>
  Skip leading white space, read an optional sign, then the longest run of decimal
  digits, whatever follows the run being ignored: \<open>NaN\<close> when that run is empty, else
  the double nearest to the integer it denotes, with the sign (so \<open>-0\<close> for a negative
  zero).
\<close>

definition parseInt10 :: "string \<Rightarrow> js_number" where
  "parseInt10 s =
     (let S = dropWhile is_white_space s;
          sign = (case S of c # _ \<Rightarrow> if c = CHR ''-'' then - 1 else 1 | [] \<Rightarrow> (1 :: int));
          S' = (case S of c # t \<Rightarrow> if c = CHR ''+'' \<or> c = CHR ''-'' then t else S | [] \<Rightarrow> S);
          Z = takeWhile is_digit S'
      in if Z = [] then NaN
         else if digits_to_nat Z = 0 then (if sign < 0 then NegZero else Num 0)
         else (case round_to_double (digits_to_nat Z) of
                 None \<Rightarrow> if sign < 0 then NegInfinity else PosInfinity
               | Some d \<Rightarrow> Num (sign * int d)))"

subsection \<open>Comparing a value with zero\<close>

text \<open>
  \<open>0 < Number(s)\<close> for a string: white space is trimmed at both ends; the empty
  string is 0; \<open>0x\<close>, \<open>0o\<close> and \<open>0b\<close> introduce unsigned hexadecimal, octal and
  binary integers; otherwise the string is an optionally signed \<open>Infinity\<close> or
  decimal literal with optional fraction and exponent, and anything else is \<open>NaN\<close>.
  A positive literal is a positive double unless it rounds to zero, which it does up to
  \<open>2^-1075\<close>.
\<close>

definition trim :: "string \<Rightarrow> string" where
  "trim s = rev (dropWhile is_white_space (rev (dropWhile is_white_space s)))"

definition is_hex_digit :: "char \<Rightarrow> bool" where
  "is_hex_digit c =
     (is_digit c \<or> c \<in> set ''abcdef'' \<or> c \<in> set ''ABCDEF'')"

definition digits_value :: "string \<Rightarrow> int option" where
  "digits_value t = (if t \<noteq> [] \<and> list_all is_digit t then Some (int (digits_to_nat t)) else None)"

definition signed_integer :: "string \<Rightarrow> int option" where
  "signed_integer s =
     (case s of
        [] \<Rightarrow> None
      | c # t \<Rightarrow> if c = CHR ''+'' then digits_value t
                 else if c = CHR ''-'' then map_option uminus (digits_value t)
                 else digits_value s)"

definition unsigned_decimal_positive :: "string \<Rightarrow> bool" where
  "unsigned_decimal_positive u =
     (if u = ''Infinity'' then True
      else (let ip = takeWhile is_digit u;
                u1 = dropWhile is_digit u;
                fp = (case u1 of c # t \<Rightarrow> if c = CHR ''.'' then takeWhile is_digit t else []
                      | [] \<Rightarrow> []);
                u2 = (case u1 of c # t \<Rightarrow> if c = CHR ''.'' then dropWhile is_digit t else u1
                      | [] \<Rightarrow> []);
                exponent = (case u2 of
                              [] \<Rightarrow> Some 0
                            | c # t \<Rightarrow> if c = CHR ''e'' \<or> c = CHR ''E'' then signed_integer t
                                       else None)
            in if ip = [] \<and> fp = [] then False
               else (case exponent of
                       None \<Rightarrow> False
                     | Some x \<Rightarrow>
                         (let m = digits_to_nat (ip @ fp);
                              k = x - int (length fp)
                          in m \<noteq> 0 \<and> (0 \<le> k \<or> 10 ^ nat (- k) < m * 2 ^ 1075)))))"

definition non_decimal_positive :: "char \<Rightarrow> string \<Rightarrow> bool" where
  "non_decimal_positive d ds =
     (ds \<noteq> [] \<and>
      (if d = CHR ''x'' \<or> d = CHR ''X'' then list_all is_hex_digit ds
       else if d = CHR ''o'' \<or> d = CHR ''O'' then list_all (\<lambda>c. c \<in> set ''01234567'') ds
       else list_all (\<lambda>c. c \<in> set ''01'') ds) \<and>
      \<not> list_all (\<lambda>c. c = CHR ''0'') ds)"

definition string_positive :: "string \<Rightarrow> bool" where
  "string_positive s =
     (case trim s of
        [] \<Rightarrow> False
      | c # r \<Rightarrow>
          (case r of
             d # ds \<Rightarrow>
               if c = CHR ''0'' \<and> d \<in> set ''xXoObB'' then non_decimal_positive d ds
               else if c = CHR ''-'' then False
               else if c = CHR ''+'' then unsigned_decimal_positive r
               else unsigned_decimal_positive (c # r)
           | [] \<Rightarrow> unsigned_decimal_positive [c]))"

text \<open>
  \<open>0 < v\<close> for a value that converts: \<open>undefined\<close> is \<open>NaN\<close>, \<open>null\<close>
  is 0, \<open>true\<close> is 1, a string is the number it spells, an array is its string, an
  object is \<open>NaN\<close>.
\<close>

definition to_number_positive :: "js_value \<Rightarrow> bool" where
  "to_number_positive v =
     (case v of
        JUndefined \<Rightarrow> False
      | JNull \<Rightarrow> False
      | JBool b \<Rightarrow> b
      | JNum n \<Rightarrow> 0 < n
      | JStr s \<Rightarrow> string_positive s
      | JArr xs \<Rightarrow> string_positive (to_string (JArr xs))
      | JObj kvs \<Rightarrow> False)"

text \<open>
  \<open>v.length > 0\<close> for a value that is not \<open>undefined\<close> or \<open>null\<close>: the
  length of an array or a string, the \<open>length\<close> property of an object, \<open>undefined\<close>
  on a number or boolean. The comparison throws when the property does not convert.
\<close>

definition length_positive :: "js_value \<Rightarrow> js_error + bool" where
  "length_positive v =
     (case v of
        JArr xs \<Rightarrow> Inr (xs \<noteq> [])
      | JStr s \<Rightarrow> Inr (s \<noteq> [])
      | JObj kvs \<Rightarrow>
          (case map_of kvs ''length'' of
             None \<Rightarrow> Inr False
           | Some l \<Rightarrow> if convertible l then Inr (to_number_positive l) else Inl cannot_convert)
      | _ \<Rightarrow> Inr False)"

subsection \<open>Requests and responses\<close>

text \<open>
  What \<open>fetch\<close> is given: the URL, the method, the headers and the body. The body is
  the value whose JSON text is sent.
\<close>

record request =
  req_url :: string
  req_method :: string
  req_headers :: "(string \<times> string) list"
  req_body :: js_value

text \<open>
  \<open>JSON.stringify\<close> leaves out the properties of an object whose value is
  \<open>undefined\<close>; the variables of this program are flat objects.
\<close>

definition stringify_object :: "(string \<times> js_value) list \<Rightarrow> js_value" where
  "stringify_object kvs = JObj (filter (\<lambda>(k, v). v \<noteq> JUndefined) kvs)"

text \<open>
  What \<open>fetch\<close> resolves to: \<open>status\<close>, \<open>statusText\<close>, \<open>headers.get\<close> as a
  function of the header name, and the result of \<open>json()\<close>, \<open>None\<close> when the body is
  not JSON and \<open>json()\<close> rejects.
\<close>

record 'b response =
  status :: nat
  statusText :: string
  headers :: "string \<Rightarrow> string option"
  json :: "'b option"

definition ok :: "'b response \<Rightarrow> bool" where
  "ok r = (200 \<le> status r \<and> status r \<le> 299)"

text \<open>
  The network: the reply to a request, given the requests sent before it; \<open>None\<close> when
  \<open>fetch\<close> itself rejects.
\<close>

type_synonym 'b network = "request list \<Rightarrow> request \<Rightarrow> 'b response option"

definition fetch_failed :: js_error where
  "fetch_failed = TypeError ''fetch failed''"

subsection \<open>Rate limiting\<close>

text \<open>
  The error both calls throw on status 429. \<open>retryAfter\<close> is
  \<open>response.headers.get("Retry-After")\<close>, \<open>None\<close> for \<open>null\<close>. The test
  \<open>retryAfter ? ... : 60\<close> takes the empty string for absent.
\<close>

definition rate_limit_error :: "string option \<Rightarrow> js_error" where
  "rate_limit_error retryAfter =
     Error (''Rate limit exceeded. Retry after ''
              @ (case retryAfter of None \<Rightarrow> ''null'' | Some h \<Rightarrow> h) @ '' seconds.'')
           (Some (case retryAfter of
                    None \<Rightarrow> Num 60
                  | Some h \<Rightarrow> if h \<noteq> [] then parseInt10 h else Num 60))"

subsection \<open>graphqlQuery\<close>

definition GITHUB_API_URL :: string where
  "GITHUB_API_URL = ''https://api.github.com''"

definition GITHUB_GRAPHQL_URL :: string where
  "GITHUB_GRAPHQL_URL = ''https://api.github.com/graphql''"

definition graphql_request :: "string \<Rightarrow> string \<Rightarrow> (string \<times> js_value) list \<Rightarrow> request" where
  "graphql_request token query variables =
     \<lparr>req_url = GITHUB_GRAPHQL_URL, req_method = ''POST'',
      req_headers = [(''Authorization'', ''Bearer '' @ token),
                     (''Content-Type'', ''application/json''),
                     (''User-Agent'', ''GitHub-Projects-MCP'')],
      req_body = JObj [(''query'', JStr query), (''variables'', stringify_object variables)]\<rparr>"

text \<open>
  What \<open>graphqlQuery\<close> makes of the response. The parsed body is any JSON value: the
  annotation \<open>GraphQLResponse<T>\<close> checks nothing at run time, so the reads of
  \<open>result.errors\<close>, \<open>result.errors.length\<close>, \<open>result.errors.map\<close>, \<open>e.message\<close>
  and \<open>result.data\<close> are reads on whatever the body holds, and \<open>join\<close> converts
  whatever the messages are.
\<close>

definition graphql_result :: "js_value response \<Rightarrow> js_error + js_value" where
  "graphql_result response =
     (if status response = 429 then Inl (rate_limit_error (headers response ''Retry-After''))
      else if \<not> ok response then
        Inl (Error (''GitHub API request failed: '' @ string_of_nat (status response)
                      @ '' '' @ statusText response) None)
      else
        (case json response of
           None \<Rightarrow> Inl (SyntaxError ''Unexpected token in JSON'')
         | Some result \<Rightarrow>
             on_success (get_prop result ''errors'') (\<lambda>errors.
               on_success (if truthy errors then length_positive errors else Inr False)
                 (\<lambda>present.
                    if present then
                      on_success (js_map (\<lambda>e. get_prop e ''message'') errors) (\<lambda>messages.
                        if list_all convertible messages then
                          Inl (Error (''GraphQL errors: ''
                                        @ js_join '', '' (map element_to_string messages)) None)
                        else Inl cannot_convert)
                    else
                      on_success (get_prop result ''data'') (\<lambda>data.
                        if \<not> truthy data then Inl (Error ''GraphQL response missing data'' None)
                        else Inr data)))))"

text \<open>
  The call: the result, and the requests sent so far with this one added.
\<close>

definition graphqlQuery ::
  "string \<Rightarrow> js_value network \<Rightarrow> request list \<Rightarrow> string \<Rightarrow> (string \<times> js_value) list
   \<Rightarrow> (js_error + js_value) \<times> request list" where
  "graphqlQuery token net sent query variables =
     (let req = graphql_request token query variables
      in (case net sent req of
            None \<Rightarrow> Inl fetch_failed
          | Some response \<Rightarrow> graphql_result response,
          sent @ [req]))"

subsection \<open>restRequest\<close>

text \<open>The fields of \<open>RequestInit\<close> the call looks at or passes on.\<close>

record request_init =
  init_method :: "string option"
  init_headers :: "(string \<times> string) list"
  init_body :: js_value

text \<open>Object spread \<open>{...a, ...b}\<close> on header lists: a key of \<open>b\<close> replaces \<open>a\<close>'s.\<close>

definition spread_headers :: "(string \<times> string) list \<Rightarrow> (string \<times> string) list \<Rightarrow> (string \<times> string) list" where
  "spread_headers a b =
     map (\<lambda>(k, v). (k, case map_of b k of None \<Rightarrow> v | Some w \<Rightarrow> w)) a
     @ filter (\<lambda>(k, v). k \<notin> set (map fst a)) b"

definition rest_request :: "string \<Rightarrow> string \<Rightarrow> request_init \<Rightarrow> request" where
  "rest_request token endpoint options =
     \<lparr>req_url = (if take 4 endpoint = ''http'' then endpoint else GITHUB_API_URL @ endpoint),
      req_method = (case init_method options of None \<Rightarrow> ''GET'' | Some m \<Rightarrow> m),
      req_headers =
        spread_headers
          [(''Authorization'', ''Bearer '' @ token),
           (''Content-Type'', ''application/json''),
           (''User-Agent'', ''GitHub-Projects-MCP''),
           (''Accept'', ''application/vnd.github+json''),
           (''X-GitHub-Api-Version'', ''2022-11-28'')]
          (init_headers options),
      req_body = init_body options\<rparr>"

text \<open>
  The message of the error thrown on a status that is neither 429 nor 2xx. Reading the
  body is inside \<open>try\<close>: a body that is not JSON, or is \<open>null\<close>, or whose
  message does not convert to a string, adds nothing.
\<close>

definition rest_error_message :: "js_value response \<Rightarrow> string" where
  "rest_error_message response =
     (let errorMessage = ''GitHub REST API request failed: '' @ string_of_nat (status response)
                           @ '' '' @ statusText response
      in case json response of
           None \<Rightarrow> errorMessage
         | Some errorBody \<Rightarrow>
             (case get_prop errorBody ''message'' of
                Inl e \<Rightarrow> errorMessage
              | Inr m \<Rightarrow> if truthy m \<and> convertible m then errorMessage @ '' - '' @ to_string m
                         else errorMessage))"

definition rest_result :: "js_value response \<Rightarrow> js_error + js_value" where
  "rest_result response =
     (if status response = 429 then Inl (rate_limit_error (headers response ''Retry-After''))
      else if \<not> ok response then Inl (Error (rest_error_message response) None)
      else if status response = 204 then Inr (JObj [])
      else (case json response of
              None \<Rightarrow> Inl (SyntaxError ''Unexpected token in JSON'')
            | Some v \<Rightarrow> Inr v))"

definition restRequest ::
  "string \<Rightarrow> js_value network \<Rightarrow> request list \<Rightarrow> string \<Rightarrow> request_init
   \<Rightarrow> (js_error + js_value) \<times> request list" where
  "restRequest token net sent endpoint options =
     (let req = rest_request token endpoint options
      in (case net sent req of
            None \<Rightarrow> Inl fetch_failed
          | Some response \<Rightarrow> rest_result response,
          sent @ [req]))"

section \<open>The GitHub tools (server/tools/issues.ts, server/tools/projects.ts)\<close>

subsection \<open>Building and reading values\<close>

text \<open>
  An object literal: a key written again keeps its place and takes the later value.
  \<open>...v\<close> contributes the own properties of \<open>v\<close>: those of an object, the indexed
  elements of an array or string, nothing otherwise.
\<close>

definition set_property :: "(string \<times> js_value) list \<Rightarrow> string \<Rightarrow> js_value \<Rightarrow> (string \<times> js_value) list" where
  "set_property kvs k v =
     (if k \<in> set (map fst kvs) then map (\<lambda>(k', v'). if k' = k then (k', v) else (k', v')) kvs
      else kvs @ [(k, v)])"

definition object_literal :: "(string \<times> js_value) list \<Rightarrow> js_value" where
  "object_literal entries = JObj (foldl (\<lambda>acc (k, v). set_property acc k v) [] entries)"

definition js_spread :: "js_value \<Rightarrow> (string \<times> js_value) list" where
  "js_spread v =
     (case v of
        JObj kvs \<Rightarrow> kvs
      | JArr xs \<Rightarrow> map (\<lambda>i. (string_of_nat i, xs ! i)) [0..<length xs]
      | JStr s \<Rightarrow> map (\<lambda>i. (string_of_nat i, JStr [s ! i])) [0..<length s]
      | _ \<Rightarrow> [])"

text \<open>Validated inputs as values: an optional field that is missing is \<open>undefined\<close>.\<close>

definition opt_string :: "string option \<Rightarrow> js_value" where
  "opt_string s = (case s of None \<Rightarrow> JUndefined | Some t \<Rightarrow> JStr t)"

definition strings :: "string list \<Rightarrow> js_value" where
  "strings xs = JArr (map JStr xs)"

definition opt_strings :: "string list option \<Rightarrow> js_value" where
  "opt_strings xs = (case xs of None \<Rightarrow> JUndefined | Some ys \<Rightarrow> strings ys)"

definition opt_bool :: "bool option \<Rightarrow> js_value" where
  "opt_bool b = (case b of None \<Rightarrow> JUndefined | Some c \<Rightarrow> JBool c)"

subsection \<open>The request context\<close>

text \<open>
  \<open>env.DECO_REQUEST_CONTEXT?.state\<close>: \<open>None\<close> when there is no request context, else
  the state with its optional \<open>githubToken\<close> and \<open>defaultOrganization\<close>.
\<close>

record app_state =
  githubToken :: "string option"
  defaultOrganization :: "string option"

type_synonym env = "app_state option"

type_synonym tool_result = "(js_error + js_value) \<times> request list"

definition token_not_configured :: js_error where
  "token_not_configured =
     Error ''GitHub token not configured. Please configure your app with a GitHub Personal Access Token.'' None"

definition organization_required :: js_error where
  "organization_required =
     Error ''Organization login is required. Provide it in the input or set a default organization in app configuration.'' None"

text \<open>
  The lines every tool starts with:
  \<^verbatim>\<open>const state = env.DECO_REQUEST_CONTEXT?.state;
if (!state?.githubToken) { throw new Error("GitHub token not configured. ...") }
const client = createGitHubClient(state.githubToken);\<close>
  The test is a truthiness test, so an empty token counts as none. The rest of the tool
  runs with the state and the token the client holds; nothing has been sent yet.
\<close>

definition with_client :: "env \<Rightarrow> (app_state \<Rightarrow> string \<Rightarrow> tool_result) \<Rightarrow> tool_result" where
  "with_client e f =
     (case e of
        None \<Rightarrow> (Inl token_not_configured, [])
      | Some state \<Rightarrow>
          (case githubToken state of
             None \<Rightarrow> (Inl token_not_configured, [])
           | Some token \<Rightarrow> if token = [] then (Inl token_not_configured, []) else f state token))"

text \<open>After a call: stop on its error, else go on with its value and the requests sent.\<close>

definition then_call :: "tool_result \<Rightarrow> (js_value \<Rightarrow> request list \<Rightarrow> tool_result) \<Rightarrow> tool_result" where
  "then_call r f = (case r of (Inl e, sent) \<Rightarrow> (Inl e, sent) | (Inr v, sent) \<Rightarrow> f v sent)"

definition then_return :: "tool_result \<Rightarrow> (js_value \<Rightarrow> js_error + js_value) \<Rightarrow> tool_result" where
  "then_return r f = then_call r (\<lambda>v sent. (f v, sent))"

text \<open>\<open>Math.min(context.first || 20, 100)\<close>.\<close>

definition page_size :: "int \<Rightarrow> int" where
  "page_size first = min (if first \<noteq> 0 then first else 20) 100"

subsection \<open>The client's helpers\<close>

text \<open>
  The GraphQL documents are string constants; the model keeps the operation header of
  each, written on one line, and leaves out the selection set, which the program never
  inspects.
\<close>

definition getRepositoryNodeId ::
  "string \<Rightarrow> js_value network \<Rightarrow> request list \<Rightarrow> string \<Rightarrow> string \<Rightarrow> tool_result" where
  "getRepositoryNodeId token net sent owner repo =
     then_return
       (graphqlQuery token net sent ''query GetRepositoryId($owner: String!, $repo: String!)''
          [(''owner'', JStr owner), (''repo'', JStr repo)])
       (\<lambda>result. get_path result [''repository'', ''id''])"

definition getIssueNodeId ::
  "string \<Rightarrow> js_value network \<Rightarrow> request list \<Rightarrow> string \<Rightarrow> string \<Rightarrow> int \<Rightarrow> tool_result" where
  "getIssueNodeId token net sent owner repo issueNumber =
     then_return
       (graphqlQuery token net sent
          ''query GetIssueId($owner: String!, $repo: String!, $issueNumber: Int!)''
          [(''owner'', JStr owner), (''repo'', JStr repo), (''issueNumber'', JNum issueNumber)])
       (\<lambda>result. get_path result [''repository'', ''issue'', ''id''])"

subsection \<open>Issue tools\<close>

datatype issue_state = OPEN | CLOSED

fun issue_state_name :: "issue_state \<Rightarrow> string" where
  "issue_state_name OPEN = ''OPEN''"
| "issue_state_name CLOSED = ''CLOSED''"

datatype close_reason = COMPLETED | NOT_PLANNED

fun close_reason_name :: "close_reason \<Rightarrow> string" where
  "close_reason_name COMPLETED = ''COMPLETED''"
| "close_reason_name NOT_PLANNED = ''NOT_PLANNED''"

record repo_context =
  owner :: string
  repo :: string

record issue_context = repo_context +
  issueNumber :: int

record list_issues_context = repo_context +
  li_state :: "issue_state option"
  li_labels :: "string list option"
  li_assignee :: "string option"
  li_first :: int

record create_issue_context = repo_context +
  ci_title :: string
  ci_body :: "string option"
  ci_assigneeIds :: "string list option"
  ci_labelIds :: "string list option"
  ci_milestoneId :: "string option"

record update_issue_context = issue_context +
  ui_title :: "string option"
  ui_body :: "string option"
  ui_state :: "issue_state option"

record close_issue_context = issue_context +
  stateReason :: "close_reason option"

record add_comment_context = issue_context +
  comment_body :: string

record list_comments_context = issue_context +
  lc_first :: int

record labels_context = issue_context +
  labelIds :: "string list"

record assignees_context = issue_context +
  assigneeIds :: "string list"

text \<open>
  \<open>{...issue, labels: issue.labels.nodes, assignees: issue.assignees.nodes}\<close>, with
  further properties where a tool adds them.
\<close>

definition flatten_issue :: "(string \<times> string list) list \<Rightarrow> js_value \<Rightarrow> js_error + js_value" where
  "flatten_issue added issue =
     on_success (get_path issue [''labels'', ''nodes'']) (\<lambda>label_nodes.
     on_success (get_path issue [''assignees'', ''nodes'']) (\<lambda>assignee_nodes.
     on_success (map_result (\<lambda>(k, p). on_success (get_path issue p) (\<lambda>v. Inr (k, v))) added)
       (\<lambda>extra.
          Inr (object_literal
                 (js_spread issue
                  @ [(''labels'', label_nodes), (''assignees'', assignee_nodes)] @ extra)))))"

definition createListIssues :: "env \<Rightarrow> js_value network \<Rightarrow> list_issues_context \<Rightarrow> tool_result" where
  "createListIssues e net context =
     with_client e (\<lambda>state token.
       then_return
         (graphqlQuery token net []
            ''query ListIssues($owner: String!, $repo: String!, $states: [IssueState!], $labels: [String!], $first: Int!)''
            [(''owner'', JStr (owner context)),
             (''repo'', JStr (repo context)),
             (''states'', case li_state context of
                            None \<Rightarrow> JUndefined
                          | Some s \<Rightarrow> JArr [JStr (issue_state_name s)]),
             (''labels'', opt_strings (li_labels context)),
             (''first'', JNum (page_size (li_first context)))])
         (\<lambda>result.
            on_success (get_path result [''repository'', ''issues'', ''nodes'']) (\<lambda>nodes.
            on_success (js_map (flatten_issue []) nodes) (\<lambda>issues.
            on_success (get_path result [''repository'', ''issues'', ''totalCount'']) (\<lambda>totalCount.
              Inr (JObj [(''issues'', JArr issues), (''totalCount'', totalCount)]))))))"

definition createGetIssue :: "env \<Rightarrow> js_value network \<Rightarrow> issue_context \<Rightarrow> tool_result" where
  "createGetIssue e net context =
     with_client e (\<lambda>state token.
       then_return
         (graphqlQuery token net []
            ''query GetIssue($owner: String!, $repo: String!, $issueNumber: Int!)''
            [(''owner'', JStr (owner context)),
             (''repo'', JStr (repo context)),
             (''issueNumber'', JNum (issueNumber context))])
         (\<lambda>result.
            on_success (get_path result [''repository'', ''issue'']) (\<lambda>issue.
            on_success (flatten_issue [(''commentsCount'', [''comments'', ''totalCount''])] issue)
              (\<lambda>flat. Inr (JObj [(''issue'', flat)])))))"

definition createCreateIssue :: "env \<Rightarrow> js_value network \<Rightarrow> create_issue_context \<Rightarrow> tool_result" where
  "createCreateIssue e net context =
     with_client e (\<lambda>state token.
       then_call (getRepositoryNodeId token net [] (owner context) (repo context)) (\<lambda>repoId sent.
       then_return
         (graphqlQuery token net sent
            ''mutation CreateIssue($repositoryId: ID!, $title: String!, $body: String, $assigneeIds: [ID!], $labelIds: [ID!], $milestoneId: ID)''
            [(''repositoryId'', repoId),
             (''title'', JStr (ci_title context)),
             (''body'', opt_string (ci_body context)),
             (''assigneeIds'', opt_strings (ci_assigneeIds context)),
             (''labelIds'', opt_strings (ci_labelIds context)),
             (''milestoneId'', opt_string (ci_milestoneId context))])
         (\<lambda>result.
            on_success (get_path result [''createIssue'', ''issue''])
              (\<lambda>issue. Inr (JObj [(''issue'', issue)])))))"

definition createUpdateIssue :: "env \<Rightarrow> js_value network \<Rightarrow> update_issue_context \<Rightarrow> tool_result" where
  "createUpdateIssue e net context =
     with_client e (\<lambda>state token.
       then_call (getIssueNodeId token net [] (owner context) (repo context) (issueNumber context))
         (\<lambda>issueId sent.
       then_return
         (graphqlQuery token net sent
            ''mutation UpdateIssue($issueId: ID!, $title: String, $body: String, $state: IssueState)''
            [(''issueId'', issueId),
             (''title'', opt_string (ui_title context)),
             (''body'', opt_string (ui_body context)),
             (''state'', opt_string (map_option issue_state_name (ui_state context)))])
         (\<lambda>result.
            on_success (get_path result [''updateIssue'', ''issue''])
              (\<lambda>issue. Inr (JObj [(''issue'', issue)])))))"

definition createCloseIssue :: "env \<Rightarrow> js_value network \<Rightarrow> close_issue_context \<Rightarrow> tool_result" where
  "createCloseIssue e net context =
     with_client e (\<lambda>state token.
       then_call (getIssueNodeId token net [] (owner context) (repo context) (issueNumber context))
         (\<lambda>issueId sent.
       then_return
         (graphqlQuery token net sent
            ''mutation CloseIssue($issueId: ID!, $stateReason: IssueClosedStateReason)''
            [(''issueId'', issueId),
             (''stateReason'', opt_string (map_option close_reason_name (stateReason context)))])
         (\<lambda>result.
            on_success (get_path result [''closeIssue'', ''issue''])
              (\<lambda>issue. Inr (JObj [(''issue'', issue)])))))"

definition createAddIssueComment :: "env \<Rightarrow> js_value network \<Rightarrow> add_comment_context \<Rightarrow> tool_result" where
  "createAddIssueComment e net context =
     with_client e (\<lambda>state token.
       then_call (getIssueNodeId token net [] (owner context) (repo context) (issueNumber context))
         (\<lambda>issueId sent.
       then_return
         (graphqlQuery token net sent
            ''mutation AddComment($subjectId: ID!, $body: String!)''
            [(''subjectId'', issueId),
             (''body'', JStr (comment_body context))])
         (\<lambda>result.
            on_success (get_path result [''addComment'', ''commentEdge'', ''node''])
              (\<lambda>node. Inr (JObj [(''comment'', node)])))))"

definition createListIssueComments :: "env \<Rightarrow> js_value network \<Rightarrow> list_comments_context \<Rightarrow> tool_result" where
  "createListIssueComments e net context =
     with_client e (\<lambda>state token.
       then_return
         (graphqlQuery token net []
            ''query ListComments($owner: String!, $repo: String!, $issueNumber: Int!, $first: Int!)''
            [(''owner'', JStr (owner context)),
             (''repo'', JStr (repo context)),
             (''issueNumber'', JNum (issueNumber context)),
             (''first'', JNum (page_size (lc_first context)))])
         (\<lambda>result.
            on_success (get_path result [''repository'', ''issue'', ''comments'', ''nodes''])
              (\<lambda>nodes. Inr (JObj [(''comments'', nodes)]))))"

definition createAddLabelsToIssue :: "env \<Rightarrow> js_value network \<Rightarrow> labels_context \<Rightarrow> tool_result" where
  "createAddLabelsToIssue e net context =
     with_client e (\<lambda>state token.
       then_call (getIssueNodeId token net [] (owner context) (repo context) (issueNumber context))
         (\<lambda>issueId sent.
       then_return
         (graphqlQuery token net sent
            ''mutation AddLabels($labelableId: ID!, $labelIds: [ID!]!)''
            [(''labelableId'', issueId),
             (''labelIds'', strings (labelIds context))])
         (\<lambda>result.
            on_success (get_path result [''addLabelsToLabelable'', ''labelable'', ''labels'', ''nodes''])
              (\<lambda>nodes. Inr (JObj [(''labels'', nodes)])))))"

definition createRemoveLabelsFromIssue :: "env \<Rightarrow> js_value network \<Rightarrow> labels_context \<Rightarrow> tool_result" where
  "createRemoveLabelsFromIssue e net context =
     with_client e (\<lambda>state token.
       then_call (getIssueNodeId token net [] (owner context) (repo context) (issueNumber context))
         (\<lambda>issueId sent.
       then_return
         (graphqlQuery token net sent
            ''mutation RemoveLabels($labelableId: ID!, $labelIds: [ID!]!)''
            [(''labelableId'', issueId),
             (''labelIds'', strings (labelIds context))])
         (\<lambda>result.
            on_success
              (get_path result [''removeLabelsFromLabelable'', ''labelable'', ''labels'', ''nodes''])
              (\<lambda>nodes. Inr (JObj [(''labels'', nodes)])))))"

definition createAssignIssue :: "env \<Rightarrow> js_value network \<Rightarrow> assignees_context \<Rightarrow> tool_result" where
  "createAssignIssue e net context =
     with_client e (\<lambda>state token.
       then_call (getIssueNodeId token net [] (owner context) (repo context) (issueNumber context))
         (\<lambda>issueId sent.
       then_return
         (graphqlQuery token net sent
            ''mutation AssignIssue($assignableId: ID!, $assigneeIds: [ID!]!)''
            [(''assignableId'', issueId),
             (''assigneeIds'', strings (assigneeIds context))])
         (\<lambda>result.
            on_success
              (get_path result [''addAssigneesToAssignable'', ''assignable'', ''assignees'', ''nodes''])
              (\<lambda>nodes. Inr (JObj [(''assignees'', nodes)])))))"

definition createUnassignIssue :: "env \<Rightarrow> js_value network \<Rightarrow> assignees_context \<Rightarrow> tool_result" where
  "createUnassignIssue e net context =
     with_client e (\<lambda>state token.
       then_call (getIssueNodeId token net [] (owner context) (repo context) (issueNumber context))
         (\<lambda>issueId sent.
       then_return
         (graphqlQuery token net sent
            ''mutation UnassignIssue($assignableId: ID!, $assigneeIds: [ID!]!)''
            [(''assignableId'', issueId),
             (''assigneeIds'', strings (assigneeIds context))])
         (\<lambda>result.
            on_success
              (get_path result
                 [''removeAssigneesFromAssignable'', ''assignable'', ''assignees'', ''nodes''])
              (\<lambda>nodes. Inr (JObj [(''assignees'', nodes)])))))"

subsection \<open>Project tools\<close>

record list_projects_context =
  lp_organizationLogin :: string
  lp_first :: int

record project_context =
  projectId :: string

record create_project_context =
  cp_organizationLogin :: string
  cp_title :: string
  cp_description :: "string option"

record update_project_context = project_context +
  up_title :: "string option"
  up_shortDescription :: "string option"
  up_readme :: "string option"
  up_public :: "bool option"

record list_items_context = project_context +
  lpi_first :: int

record add_item_context = project_context +
  contentId :: string

text \<open>
  \<open>context.organizationLogin || state.defaultOrganization\<close>, then \<open>if (!orgLogin)\<close>:
  \<open>None\<close> when neither is a non-empty string.
\<close>

definition orgLogin_of :: "string \<Rightarrow> app_state \<Rightarrow> string option" where
  "orgLogin_of organizationLogin state =
     (if organizationLogin \<noteq> [] then Some organizationLogin
      else (case defaultOrganization state of
              None \<Rightarrow> None
            | Some d \<Rightarrow> if d \<noteq> [] then Some d else None))"

definition createListGitHubProjects ::
  "env \<Rightarrow> js_value network \<Rightarrow> list_projects_context \<Rightarrow> tool_result" where
  "createListGitHubProjects e net context =
     with_client e (\<lambda>state token.
       case orgLogin_of (lp_organizationLogin context) state of
         None \<Rightarrow> (Inl organization_required, [])
       | Some orgLogin \<Rightarrow>
           then_return
             (graphqlQuery token net [] ''query ListProjects($login: String!, $first: Int!)''
                [(''login'', JStr orgLogin),
                 (''first'', JNum (page_size (lp_first context)))])
             (\<lambda>result.
                on_success (get_path result [''organization'', ''projectsV2'', ''nodes''])
                  (\<lambda>nodes. Inr (JObj [(''projects'', nodes)]))))"

definition createGetProjectDetails ::
  "env \<Rightarrow> js_value network \<Rightarrow> project_context \<Rightarrow> tool_result" where
  "createGetProjectDetails e net context =
     with_client e (\<lambda>state token.
       then_return
         (graphqlQuery token net [] ''query GetProject($projectId: ID!)''
            [(''projectId'', JStr (projectId context))])
         (\<lambda>result.
            on_success (get_prop result ''node'') (\<lambda>node.
            on_success (get_path result [''node'', ''items'', ''totalCount'']) (\<lambda>itemsCount.
              Inr (JObj [(''project'',
                          object_literal (js_spread node @ [(''itemsCount'', itemsCount)]))])))))"

definition createCreateProject ::
  "env \<Rightarrow> js_value network \<Rightarrow> create_project_context \<Rightarrow> tool_result" where
  "createCreateProject e net context =
     with_client e (\<lambda>state token.
       case orgLogin_of (cp_organizationLogin context) state of
         None \<Rightarrow> (Inl organization_required, [])
       | Some orgLogin \<Rightarrow>
           then_call
             (graphqlQuery token net [] ''query GetOrgId($login: String!)''
                [(''login'', JStr orgLogin)])
             (\<lambda>orgResult sent.
                case get_path orgResult [''organization'', ''id''] of
                  Inl err \<Rightarrow> (Inl err, sent)
                | Inr ownerId \<Rightarrow>
                    then_return
                      (graphqlQuery token net sent
                         ''mutation CreateProject($ownerId: ID!, $title: String!)''
                         [(''ownerId'', ownerId),
                          (''title'', JStr (cp_title context))])
                      (\<lambda>result.
                         on_success (get_path result [''createProjectV2'', ''projectV2''])
                           (\<lambda>project. Inr (JObj [(''project'', project)])))))"

definition createUpdateProject ::
  "env \<Rightarrow> js_value network \<Rightarrow> update_project_context \<Rightarrow> tool_result" where
  "createUpdateProject e net context =
     with_client e (\<lambda>state token.
       then_return
         (graphqlQuery token net []
            ''mutation UpdateProject($projectId: ID!, $title: String, $shortDescription: String, $readme: String, $public: Boolean)''
            [(''projectId'', JStr (projectId context)),
             (''title'', opt_string (up_title context)),
             (''shortDescription'', opt_string (up_shortDescription context)),
             (''readme'', opt_string (up_readme context)),
             (''public'', opt_bool (up_public context))])
         (\<lambda>result.
            on_success (get_path result [''updateProjectV2'', ''projectV2''])
              (\<lambda>project. Inr (JObj [(''project'', project)]))))"

definition createDeleteProject ::
  "env \<Rightarrow> js_value network \<Rightarrow> project_context \<Rightarrow> tool_result" where
  "createDeleteProject e net context =
     with_client e (\<lambda>state token.
       then_return
         (graphqlQuery token net [] ''mutation DeleteProject($projectId: ID!)''
            [(''projectId'', JStr (projectId context))])
         (\<lambda>result.
            on_success (get_path result [''deleteProjectV2'', ''projectV2'', ''id''])
              (\<lambda>deleted. Inr (JObj [(''success'', JBool True), (''deletedProjectId'', deleted)]))))"

text \<open>
  \<open>{id: node.id, type: node.content.__typename, title: node.content.title, ...}\<close>.
\<close>

definition project_item :: "js_value \<Rightarrow> js_error + js_value" where
  "project_item node =
     on_success (get_prop node ''id'') (\<lambda>item_id.
     on_success (get_path node [''content'', ''__typename'']) (\<lambda>typename.
     on_success (get_path node [''content'', ''title'']) (\<lambda>title.
     on_success (get_path node [''content'', ''url'']) (\<lambda>url.
     on_success (get_path node [''content'', ''state'']) (\<lambda>item_state.
     on_success (get_path node [''content'', ''number'']) (\<lambda>number.
       Inr (JObj [(''id'', item_id), (''type'', typename), (''title'', title), (''url'', url),
                  (''state'', item_state), (''number'', number)])))))))"

definition createListProjectItems ::
  "env \<Rightarrow> js_value network \<Rightarrow> list_items_context \<Rightarrow> tool_result" where
  "createListProjectItems e net context =
     with_client e (\<lambda>state token.
       then_return
         (graphqlQuery token net [] ''query ListProjectItems($projectId: ID!, $first: Int!)''
            [(''projectId'', JStr (projectId context)),
             (''first'', JNum (page_size (lpi_first context)))])
         (\<lambda>result.
            on_success (get_path result [''node'', ''items'', ''nodes'']) (\<lambda>nodes.
            on_success (js_map project_item nodes) (\<lambda>items.
              Inr (JObj [(''items'', JArr items)])))))"

definition createAddItemToProject ::
  "env \<Rightarrow> js_value network \<Rightarrow> add_item_context \<Rightarrow> tool_result" where
  "createAddItemToProject e net context =
     with_client e (\<lambda>state token.
       then_return
         (graphqlQuery token net [] ''mutation AddItemToProject($projectId: ID!, $contentId: ID!)''
            [(''projectId'', JStr (projectId context)),
             (''contentId'', JStr (contentId context))])
         (\<lambda>result.
            on_success (get_path result [''addProjectV2ItemById'', ''item''])
              (\<lambda>item. Inr (JObj [(''item'', item)]))))"

subsection \<open>User tools\<close>

text \<open>
  Modelled from the spec: the user tools (\<open>userTools\<close> of server/tools/user.ts) are
  imported by the tool index and the metadata tool, but the file is not among the
  sources. The specification describes every tool handler alike: it validates its input
  and calls the GraphQL helper with a fixed query or mutation string, reshaping the
  response, and a missing credential is a local precondition failure, rejected
  immediately. A user tool is therefore taken to be the common prologue followed by one
  call with the tool's document and variables and the tool's reshaping of the payload.
\<close>

definition spec_user_tool ::
  "string \<Rightarrow> (string \<times> js_value) list \<Rightarrow> (js_value \<Rightarrow> js_error + js_value)
   \<Rightarrow> env \<Rightarrow> js_value network \<Rightarrow> tool_result" where
  "spec_user_tool document variables reshape e net =
     with_client e (\<lambda>state token.
       then_return (graphqlQuery token net [] document variables) reshape)"

subsection \<open>The tool lists\<close>

text \<open>
  A call of one of \<open>issueTools\<close> or \<open>projectTools\<close>, the tools that talk to GitHub,
  with its validated input.
\<close>

datatype github_tool_call =
    LIST_ISSUES list_issues_context
  | GET_ISSUE issue_context
  | CREATE_ISSUE create_issue_context
  | UPDATE_ISSUE update_issue_context
  | CLOSE_ISSUE close_issue_context
  | ADD_ISSUE_COMMENT add_comment_context
  | LIST_ISSUE_COMMENTS list_comments_context
  | ADD_LABELS_TO_ISSUE labels_context
  | REMOVE_LABELS_FROM_ISSUE labels_context
  | ASSIGN_ISSUE assignees_context
  | UNASSIGN_ISSUE assignees_context
  | LIST_GITHUB_PROJECTS list_projects_context
  | GET_PROJECT_DETAILS project_context
  | CREATE_PROJECT create_project_context
  | UPDATE_PROJECT update_project_context
  | DELETE_PROJECT project_context
  | LIST_PROJECT_ITEMS list_items_context
  | ADD_ITEM_TO_PROJECT add_item_context

fun execute :: "env \<Rightarrow> js_value network \<Rightarrow> github_tool_call \<Rightarrow> tool_result" where
  "execute e net (LIST_ISSUES c) = createListIssues e net c"
| "execute e net (GET_ISSUE c) = createGetIssue e net c"
| "execute e net (CREATE_ISSUE c) = createCreateIssue e net c"
| "execute e net (UPDATE_ISSUE c) = createUpdateIssue e net c"
| "execute e net (CLOSE_ISSUE c) = createCloseIssue e net c"
| "execute e net (ADD_ISSUE_COMMENT c) = createAddIssueComment e net c"
| "execute e net (LIST_ISSUE_COMMENTS c) = createListIssueComments e net c"
| "execute e net (ADD_LABELS_TO_ISSUE c) = createAddLabelsToIssue e net c"
| "execute e net (REMOVE_LABELS_FROM_ISSUE c) = createRemoveLabelsFromIssue e net c"
| "execute e net (ASSIGN_ISSUE c) = createAssignIssue e net c"
| "execute e net (UNASSIGN_ISSUE c) = createUnassignIssue e net c"
| "execute e net (LIST_GITHUB_PROJECTS c) = createListGitHubProjects e net c"
| "execute e net (GET_PROJECT_DETAILS c) = createGetProjectDetails e net c"
| "execute e net (CREATE_PROJECT c) = createCreateProject e net c"
| "execute e net (UPDATE_PROJECT c) = createUpdateProject e net c"
| "execute e net (DELETE_PROJECT c) = createDeleteProject e net c"
| "execute e net (LIST_PROJECT_ITEMS c) = createListProjectItems e net c"
| "execute e net (ADD_ITEM_TO_PROJECT c) = createAddItemToProject e net c"

text \<open>The paginated tools, each with the \<open>first\<close> of its input.\<close>

fun requested_first :: "github_tool_call \<Rightarrow> int option" where
  "requested_first (LIST_ISSUES c) = Some (li_first c)"
| "requested_first (LIST_ISSUE_COMMENTS c) = Some (lc_first c)"
| "requested_first (LIST_GITHUB_PROJECTS c) = Some (lp_first c)"
| "requested_first (LIST_PROJECT_ITEMS c) = Some (lpi_first c)"
| "requested_first _ = None"

text \<open>The page sizes in the requests a call has sent: the variable \<open>first\<close> of each.\<close>

definition first_variable :: "request \<Rightarrow> js_value" where
  "first_variable r =
     (case get_path (req_body r) [''variables'', ''first''] of Inl e \<Rightarrow> JUndefined | Inr v \<Rightarrow> v)"

subsection \<open>Reference notions for the tracking claims\<close>

text \<open>
  The row a repeated ADD_TRACKED_PROJECT is expected to leave behind, in the claim's words:
  the title replaced by the supplied one, the active flag set to 1 if it was 0.
\<close>

definition spec_refreshed_project :: "string \<Rightarrow> tracked_project \<Rightarrow> tracked_project" where
  "spec_refreshed_project t p =
     p\<lparr>proj_title := t, proj_isActive := (if proj_isActive p = 0 then 1 else proj_isActive p)\<rparr>"

text \<open>The fields of a row that reactivation and soft delete are claimed not to touch.\<close>

definition repository_fixed_fields :: "tracked_repository \<Rightarrow> int \<times> string \<times> string \<times> int" where
  "repository_fixed_fields r = (repo_id r, repo_owner r, repo_name r, repo_createdAt r)"

definition project_fixed_fields :: "tracked_project \<Rightarrow> int \<times> string \<times> string \<times> int" where
  "project_fixed_fields p =
     (proj_id p, proj_projectId p, proj_organizationLogin p, proj_createdAt p)"

subsection \<open>Reference notions for the client claims\<close>

text \<open>
  The number a string of decimal digits denotes: the last digit counts once, each digit
  before it ten times more.
\<close>

fun value_of_digits_rev :: "string \<Rightarrow> nat" where
  "value_of_digits_rev [] = 0"
| "value_of_digits_rev (c # cs) = digit_value c + 10 * value_of_digits_rev cs"

definition decimal_value :: "string \<Rightarrow> nat" where
  "decimal_value s = value_of_digits_rev (rev s)"

text \<open>
  The decimal numeral of an integer, in the words of a reader of the message: a minus
  sign if the number is negative, then digits that denote its size, with no leading
  zero.
\<close>

definition spec_decimal_numeral :: "int \<Rightarrow> string \<Rightarrow> bool" where
  "spec_decimal_numeral i s =
     (case s of
        [] \<Rightarrow> False
      | c # t \<Rightarrow>
          (let d = (if c = CHR ''-'' then t else s)
           in (c = CHR ''-'') = (i < 0) \<and> d \<noteq> [] \<and> list_all is_digit d \<and>
              (d = ''0'' \<or> hd d \<noteq> CHR ''0'') \<and> int (decimal_value d) = \<bar>i\<bar>))"

text \<open>
  The conditions of the amended claim on a 2xx body. A value is falsy when it is
  \<open>undefined\<close> (a missing field), \<open>null\<close>, \<open>false\<close>, 0 or the empty string.
  The \<open>errors\<close> field is in force when it is a non-empty array, a non-empty string,
  or an object whose \<open>length\<close> property is greater than 0 as JavaScript compares it,
  or cannot be compared because it does not convert to a number.
\<close>

definition spec_falsy :: "js_value \<Rightarrow> bool" where
  "spec_falsy v =
     (case v of
        JUndefined \<Rightarrow> True
      | JNull \<Rightarrow> True
      | JBool b \<Rightarrow> \<not> b
      | JNum n \<Rightarrow> n = 0
      | JStr s \<Rightarrow> s = []
      | _ \<Rightarrow> False)"

definition spec_errors_in_force :: "js_value \<Rightarrow> bool" where
  "spec_errors_in_force e =
     (case e of
        JArr xs \<Rightarrow> xs \<noteq> []
      | JStr s \<Rightarrow> s \<noteq> []
      | JObj es \<Rightarrow>
          (case map_of es ''length'' of
             None \<Rightarrow> False
           | Some (JNum n) \<Rightarrow> 0 < n
           | Some (JBool b) \<Rightarrow> b
           | Some (JStr s) \<Rightarrow> string_positive s
           | Some (JArr xs) \<Rightarrow>
               \<not> convertible (JArr xs) \<or> string_positive (to_string (JArr xs))
           | Some (JObj ls) \<Rightarrow> \<not> convertible (JObj ls)
           | Some _ \<Rightarrow> False)
      | _ \<Rightarrow> False)"

text \<open>The field \<open>k\<close> of an object, \<open>undefined\<close> when it has none.\<close>

definition spec_field :: "(string \<times> js_value) list \<Rightarrow> string \<Rightarrow> js_value" where
  "spec_field kvs k = (case map_of kvs k of None \<Rightarrow> JUndefined | Some v \<Rightarrow> v)"

section \<open>Properties of the tracking store\<close>

subsection \<open>Facts about the statements\<close>

lemma select_limit_empty:
  "db_limit (Suc 0) (db_select p tbl) = [] \<longleftrightarrow> (\<forall>r\<in>set tbl. \<not> p r)"
  by (simp add: db_limit_def db_select_def filter_empty_conv)

lemma filter_key_unique:
  assumes d: "distinct (map k tbl)" and r: "r \<in> set tbl"
  shows "filter (\<lambda>x. k x = k r) tbl = [r]"
  using d r
proof (induction tbl)
  case Nil
  then show ?case by simp
next
  case (Cons a tbl)
  show ?case
  proof (cases "a = r")
    case True
    from Cons.prems have "k a \<notin> k ` set tbl" by simp
    with True have "\<forall>x\<in>set tbl. k x \<noteq> k r" by (auto simp: image_iff)
    then have "filter (\<lambda>x. k x = k r) tbl = []" by (simp add: filter_empty_conv)
    with True show ?thesis by simp
  next
    case False
    with Cons.prems have "r \<in> set tbl" "k a \<noteq> k r" "distinct (map k tbl)" by auto
    with Cons.IH show ?thesis by simp
  qed
qed

lemma select_limit_unique:
  assumes d: "distinct (map k tbl)" and r: "r \<in> set tbl"
  shows "db_limit (Suc 0) (db_select (\<lambda>x. k x = k r) tbl) = [r]"
  by (simp add: db_limit_def db_select_def filter_key_unique [OF d r])

lemma update_unique:
  assumes d: "distinct (map k tbl)" and r: "r \<in> set tbl"
  shows "db_update (\<lambda>x. k x = k r) f tbl = (map (\<lambda>x. if x = r then f r else x) tbl, [f r])"
proof -
  have eq: "\<And>x. x \<in> set tbl \<Longrightarrow> (k x = k r) = (x = r)"
    using d r by (meson distinct_map inj_onD)
  have m: "map (\<lambda>x. if k x = k r then f x else x) tbl = map (\<lambda>x. if x = r then f r else x) tbl"
    by (rule map_cong) (auto simp: eq)
  show ?thesis by (simp add: db_update_def filter_key_unique [OF d r] m)
qed

lemma update_keeps_projection:
  "(\<And>r. g (f r) = g r) \<Longrightarrow> map g (fst (db_update p f tbl)) = map g tbl"
  by (induction tbl) (simp_all add: db_update_def)

lemma update_length: "length (fst (db_update p f tbl)) = length tbl"
  by (simp add: db_update_def)

lemma next_rowid_fresh: "next_rowid ids \<notin> set ids"
proof (cases "ids = []")
  case True
  then show ?thesis by simp
next
  case False
  have "\<And>x. x \<in> set ids \<Longrightarrow> x \<le> Max (set ids)" by simp
  then have "Max (set ids) + 1 \<notin> set ids" by fastforce
  with False show ?thesis by (simp add: next_rowid_def)
qed

subsection \<open>ADD_TRACKED_REPOSITORY under a repeated call\<close>

text \<open>
  C1. The lookup before the insert selects by owner only and keeps one row
  (\<open>.where(eq(owner)).limit(1)\<close>), then searches that single row for the name. When
  the owner's first row is another repository, a pair already in the table is not found:
  with \<open>deco-cx/deco\<close> and \<open>deco-cx/apps\<close> tracked, adding \<open>deco-cx/apps\<close> again
  inserts a third row, and the pair \<open>(deco-cx, apps)\<close> is in the table twice.
\<close>

theorem add_repository_inserts_duplicate:
  "createAddTrackedRepository 300
     [\<lparr>repo_id = 1, repo_owner = ''deco-cx'', repo_name = ''deco'', repo_isActive = 1,
       repo_createdAt = 100\<rparr>,
      \<lparr>repo_id = 2, repo_owner = ''deco-cx'', repo_name = ''apps'', repo_isActive = 1,
       repo_createdAt = 200\<rparr>]
     \<lparr>ctx_owner = ''deco-cx'', ctx_name = ''apps''\<rparr>
   = (Inr \<lparr>out_id = 3, out_owner = ''deco-cx'', out_name = ''apps'', out_isActive = True,
            out_createdAt = 300\<rparr>,
      [\<lparr>repo_id = 1, repo_owner = ''deco-cx'', repo_name = ''deco'', repo_isActive = 1,
        repo_createdAt = 100\<rparr>,
       \<lparr>repo_id = 2, repo_owner = ''deco-cx'', repo_name = ''apps'', repo_isActive = 1,
        repo_createdAt = 200\<rparr>,
       \<lparr>repo_id = 3, repo_owner = ''deco-cx'', repo_name = ''apps'', repo_isActive = 1,
        repo_createdAt = 300\<rparr>])"
  by (simp add: createAddTrackedRepository_def db_limit_def db_select_def db_insert_def
        next_rowid_def first_row_def repository_out_of_def)

text \<open>
  The table of that call is one the tool itself builds: from the empty table, adding
  \<open>deco-cx/deco\<close>, then \<open>deco-cx/apps\<close>, then \<open>deco-cx/apps\<close> again leaves three
  rows.
\<close>

lemma add_repository_duplicate_reachable:
  "snd (createAddTrackedRepository 300
         (snd (createAddTrackedRepository 200
                (snd (createAddTrackedRepository 100 []
                        \<lparr>ctx_owner = ''deco-cx'', ctx_name = ''deco''\<rparr>))
                \<lparr>ctx_owner = ''deco-cx'', ctx_name = ''apps''\<rparr>))
         \<lparr>ctx_owner = ''deco-cx'', ctx_name = ''apps''\<rparr>)
   = [\<lparr>repo_id = 1, repo_owner = ''deco-cx'', repo_name = ''deco'', repo_isActive = 1,
       repo_createdAt = 100\<rparr>,
      \<lparr>repo_id = 2, repo_owner = ''deco-cx'', repo_name = ''apps'', repo_isActive = 1,
       repo_createdAt = 200\<rparr>,
      \<lparr>repo_id = 3, repo_owner = ''deco-cx'', repo_name = ''apps'', repo_isActive = 1,
       repo_createdAt = 300\<rparr>]"
  by (simp add: createAddTrackedRepository_def db_limit_def db_select_def db_insert_def
        next_rowid_def first_row_def repository_out_of_def)

subsection \<open>Removing a tracked row\<close>

lemma remove_repository_soft:
  assumes "\<exists>r\<in>set tbl. repo_id r = i"
  shows "createRemoveTrackedRepository tbl \<lparr>ctx_id = i, ctx_hardDelete = False\<rparr>
       = (Inr \<lparr>success = True, deletedId = i\<rparr>,
          map (\<lambda>r. if repo_id r = i then r\<lparr>repo_isActive := 0\<rparr> else r) tbl)"
  using assms
  by (auto simp: createRemoveTrackedRepository_def select_limit_empty db_update_def Let_def)

lemma remove_repository_hard:
  assumes "\<exists>r\<in>set tbl. repo_id r = i"
  shows "createRemoveTrackedRepository tbl \<lparr>ctx_id = i, ctx_hardDelete = True\<rparr>
       = (Inr \<lparr>success = True, deletedId = i\<rparr>, filter (\<lambda>r. repo_id r \<noteq> i) tbl)"
  using assms
  by (auto simp: createRemoveTrackedRepository_def select_limit_empty db_delete_def Let_def)

lemma remove_project_soft:
  assumes "\<exists>p\<in>set tbl. proj_id p = i"
  shows "createRemoveTrackedProject tbl \<lparr>ctx_id = i, ctx_hardDelete = False\<rparr>
       = (Inr \<lparr>success = True, deletedId = i\<rparr>,
          map (\<lambda>p. if proj_id p = i then p\<lparr>proj_isActive := 0\<rparr> else p) tbl)"
  using assms
  by (auto simp: createRemoveTrackedProject_def select_limit_empty db_update_def Let_def)

lemma remove_project_hard:
  assumes "\<exists>p\<in>set tbl. proj_id p = i"
  shows "createRemoveTrackedProject tbl \<lparr>ctx_id = i, ctx_hardDelete = True\<rparr>
       = (Inr \<lparr>success = True, deletedId = i\<rparr>, filter (\<lambda>p. proj_id p \<noteq> i) tbl)"
  using assms
  by (auto simp: createRemoveTrackedProject_def select_limit_empty db_delete_def Let_def)

text \<open>
  C6. When the table holds a row with the given id, REMOVE_TRACKED_REPOSITORY and
  REMOVE_TRACKED_PROJECT return \<open>success = true\<close> and \<open>deletedId\<close> equal to the id.
  Without \<open>hardDelete\<close> the table keeps every row in place, the row with that id now
  with \<open>isActive = 0\<close> and all others as they were; with \<open>hardDelete\<close> the table is
  the old one without the row of that id.
\<close>

theorem remove_existing_row:
  "((\<exists>r\<in>set rtbl. repo_id r = i) \<longrightarrow>
      createRemoveTrackedRepository rtbl \<lparr>ctx_id = i, ctx_hardDelete = False\<rparr>
        = (Inr \<lparr>success = True, deletedId = i\<rparr>,
           map (\<lambda>r. if repo_id r = i then r\<lparr>repo_isActive := 0\<rparr> else r) rtbl) \<and>
      createRemoveTrackedRepository rtbl \<lparr>ctx_id = i, ctx_hardDelete = True\<rparr>
        = (Inr \<lparr>success = True, deletedId = i\<rparr>, filter (\<lambda>r. repo_id r \<noteq> i) rtbl)) \<and>
   ((\<exists>p\<in>set ptbl. proj_id p = j) \<longrightarrow>
      createRemoveTrackedProject ptbl \<lparr>ctx_id = j, ctx_hardDelete = False\<rparr>
        = (Inr \<lparr>success = True, deletedId = j\<rparr>,
           map (\<lambda>p. if proj_id p = j then p\<lparr>proj_isActive := 0\<rparr> else p) ptbl) \<and>
      createRemoveTrackedProject ptbl \<lparr>ctx_id = j, ctx_hardDelete = True\<rparr>
        = (Inr \<lparr>success = True, deletedId = j\<rparr>, filter (\<lambda>p. proj_id p \<noteq> j) ptbl))"
  using remove_repository_soft [of rtbl i] remove_repository_hard [of rtbl i]
    remove_project_soft [of ptbl j] remove_project_hard [of ptbl j]
  by blast

theorem remove_existing_row_witness:
  "(\<exists>r\<in>set [\<lparr>repo_id = 1, repo_owner = ''deco-cx'', repo_name = ''deco'', repo_isActive = 1,
               repo_createdAt = 100\<rparr>,
              \<lparr>repo_id = 2, repo_owner = ''deco-cx'', repo_name = ''apps'', repo_isActive = 1,
               repo_createdAt = 200\<rparr>]. repo_id r = 2) \<and>
   createRemoveTrackedRepository
     [\<lparr>repo_id = 1, repo_owner = ''deco-cx'', repo_name = ''deco'', repo_isActive = 1,
       repo_createdAt = 100\<rparr>,
      \<lparr>repo_id = 2, repo_owner = ''deco-cx'', repo_name = ''apps'', repo_isActive = 1,
       repo_createdAt = 200\<rparr>]
     \<lparr>ctx_id = 2, ctx_hardDelete = False\<rparr>
   = (Inr \<lparr>success = True, deletedId = 2\<rparr>,
      [\<lparr>repo_id = 1, repo_owner = ''deco-cx'', repo_name = ''deco'', repo_isActive = 1,
        repo_createdAt = 100\<rparr>,
       \<lparr>repo_id = 2, repo_owner = ''deco-cx'', repo_name = ''apps'', repo_isActive = 0,
        repo_createdAt = 200\<rparr>]) \<and>
   (\<exists>p\<in>set [\<lparr>proj_id = 7, proj_projectId = ''PVT_a'', proj_title = ''Roadmap'',
               proj_organizationLogin = ''deco-cx'', proj_isActive = 1,
               proj_createdAt = 100\<rparr>]. proj_id p = 7) \<and>
   createRemoveTrackedProject
     [\<lparr>proj_id = 7, proj_projectId = ''PVT_a'', proj_title = ''Roadmap'',
       proj_organizationLogin = ''deco-cx'', proj_isActive = 1, proj_createdAt = 100\<rparr>]
     \<lparr>ctx_id = 7, ctx_hardDelete = True\<rparr>
   = (Inr \<lparr>success = True, deletedId = 7\<rparr>, [])"
  using remove_existing_row
    [of "[\<lparr>repo_id = 1, repo_owner = ''deco-cx'', repo_name = ''deco'', repo_isActive = 1,
            repo_createdAt = 100\<rparr>,
          \<lparr>repo_id = 2, repo_owner = ''deco-cx'', repo_name = ''apps'', repo_isActive = 1,
            repo_createdAt = 200\<rparr>]" 2
        "[\<lparr>proj_id = 7, proj_projectId = ''PVT_a'', proj_title = ''Roadmap'',
            proj_organizationLogin = ''deco-cx'', proj_isActive = 1, proj_createdAt = 100\<rparr>]" 7]
  by simp

lemma digit_char_facts:
  assumes "d < 10"
  shows "is_digit (digit_char d) \<and> digit_value (digit_char d) = d \<and>
         (digit_char d = CHR ''0'') = (d = 0) \<and> digit_char d \<noteq> CHR ''-''"
proof -
  from assms have "d \<in> {0, 1, 2, 3, 4, 5, 6, 7, 8, 9}" by auto
  then show ?thesis
    by (auto simp: digit_char_def is_digit_def digit_value_def)
qed

lemma decimal_value_snoc: "decimal_value (s @ [c]) = 10 * decimal_value s + digit_value c"
  by (simp add: decimal_value_def)

lemma string_of_nat_numeral:
  "string_of_nat n \<noteq> [] \<and> list_all is_digit (string_of_nat n) \<and>
   decimal_value (string_of_nat n) = n \<and>
   (if n = 0 then string_of_nat n = ''0'' else hd (string_of_nat n) \<noteq> CHR ''0'')"
proof (induction n rule: string_of_nat.induct)
  case (1 n)
  show ?case
  proof (cases "n < 10")
    case True
    then have s: "string_of_nat n = [digit_char n]" by (simp add: string_of_nat.simps)
    have z: "digit_char 0 = CHR ''0''" by (simp add: digit_char_def)
    from digit_char_facts [OF True] s z show ?thesis
      by (auto simp: decimal_value_def)
  next
    case False
    then have s: "string_of_nat n = string_of_nat (n div 10) @ [digit_char (n mod 10)]"
      by (subst string_of_nat.simps) simp
    have m: "n mod 10 < 10" by simp
    from False have nz: "n div 10 \<noteq> 0" by auto
    from "1.IH" [OF False] nz
    have ih: "string_of_nat (n div 10) \<noteq> []" "list_all is_digit (string_of_nat (n div 10))"
      "decimal_value (string_of_nat (n div 10)) = n div 10"
      "hd (string_of_nat (n div 10)) \<noteq> CHR ''0''"
      by auto
    from False have "n \<noteq> 0" by auto
    with ih digit_char_facts [OF m] show ?thesis
      by (simp add: s decimal_value_snoc)
  qed
qed

lemma string_of_int_numeral: "spec_decimal_numeral i (string_of_int i)"
proof (cases "i < 0")
  case True
  with string_of_nat_numeral [of "nat (- i)"] show ?thesis
    by (auto simp: spec_decimal_numeral_def string_of_int_def split: if_splits)
next
  case False
  obtain c t where s: "string_of_nat (nat i) = c # t"
    using string_of_nat_numeral [of "nat i"] by (cases "string_of_nat (nat i)") auto
  with string_of_nat_numeral [of "nat i"] have "is_digit c" by simp
  then have "c \<noteq> CHR ''-''" by (auto simp: is_digit_def)
  with False s string_of_nat_numeral [of "nat i"] show ?thesis
    by (auto simp: spec_decimal_numeral_def string_of_int_def split: if_splits)
qed

text \<open>
  C7. When no row has the given id, both remove tools throw an error, whatever
  \<open>hardDelete\<close> is, and the table is the one they were given. For an id JavaScript
  prints in plain decimal (an integer of size at most \<open>2^53\<close>) the message is
  \<open>Tracked repository with ID\<close> (or \<open>Tracked project with ID\<close>), the decimal numeral
  of the id and \<open>not found\<close>.
\<close>

theorem remove_missing_row:
  "((\<forall>r\<in>set rtbl. repo_id r \<noteq> i) \<longrightarrow>
      (\<exists>msg. createRemoveTrackedRepository rtbl \<lparr>ctx_id = i, ctx_hardDelete = h\<rparr>
               = (Inl (Error msg None), rtbl)) \<and>
      (\<bar>i\<bar> \<le> 2 ^ 53 \<longrightarrow>
         (\<exists>s. spec_decimal_numeral i s \<and>
              createRemoveTrackedRepository rtbl \<lparr>ctx_id = i, ctx_hardDelete = h\<rparr>
                = (Inl (Error (''Tracked repository with ID '' @ s @ '' not found'') None),
                   rtbl)))) \<and>
   ((\<forall>p\<in>set ptbl. proj_id p \<noteq> j) \<longrightarrow>
      (\<exists>msg. createRemoveTrackedProject ptbl \<lparr>ctx_id = j, ctx_hardDelete = h'\<rparr>
               = (Inl (Error msg None), ptbl)) \<and>
      (\<bar>j\<bar> \<le> 2 ^ 53 \<longrightarrow>
         (\<exists>s. spec_decimal_numeral j s \<and>
              createRemoveTrackedProject ptbl \<lparr>ctx_id = j, ctx_hardDelete = h'\<rparr>
                = (Inl (Error (''Tracked project with ID '' @ s @ '' not found'') None),
                   ptbl))))"
proof -
  have r: "(\<forall>r\<in>set rtbl. repo_id r \<noteq> i) \<Longrightarrow>
      createRemoveTrackedRepository rtbl \<lparr>ctx_id = i, ctx_hardDelete = h\<rparr>
        = (Inl (Error (''Tracked repository with ID '' @ string_of_int i @ '' not found'') None),
           rtbl)"
    by (simp add: createRemoveTrackedRepository_def select_limit_empty repository_not_found_def
          Let_def)
  have p: "(\<forall>p\<in>set ptbl. proj_id p \<noteq> j) \<Longrightarrow>
      createRemoveTrackedProject ptbl \<lparr>ctx_id = j, ctx_hardDelete = h'\<rparr>
        = (Inl (Error (''Tracked project with ID '' @ string_of_int j @ '' not found'') None),
           ptbl)"
    by (simp add: createRemoveTrackedProject_def select_limit_empty project_not_found_def
          Let_def)
  show ?thesis
    using r p string_of_int_numeral [of i] string_of_int_numeral [of j] by blast
qed

theorem remove_missing_row_witness:
  "createRemoveTrackedRepository
     [\<lparr>repo_id = 1, repo_owner = ''deco-cx'', repo_name = ''deco'', repo_isActive = 1,
       repo_createdAt = 100\<rparr>]
     \<lparr>ctx_id = 42, ctx_hardDelete = False\<rparr>
   = (Inl (Error ''Tracked repository with ID 42 not found'' None),
      [\<lparr>repo_id = 1, repo_owner = ''deco-cx'', repo_name = ''deco'', repo_isActive = 1,
        repo_createdAt = 100\<rparr>]) \<and>
   createRemoveTrackedProject [] \<lparr>ctx_id = 7, ctx_hardDelete = True\<rparr>
   = (Inl (Error ''Tracked project with ID 7 not found'' None), []) \<and>
   spec_decimal_numeral 42 ''42'' \<and> \<bar>42 :: int\<bar> \<le> 2 ^ 53"
  using remove_missing_row
    [of "[\<lparr>repo_id = 1, repo_owner = ''deco-cx'', repo_name = ''deco'', repo_isActive = 1,
            repo_createdAt = 100\<rparr>]" 42 False "[]" 7 True]
  by (simp add: createRemoveTrackedRepository_def createRemoveTrackedProject_def
        db_limit_def db_select_def repository_not_found_def project_not_found_def
        string_of_int_def string_of_nat.simps digit_char_def spec_decimal_numeral_def
        is_digit_def decimal_value_def digit_value_def)

subsection \<open>ADD_TRACKED_PROJECT on a project already tracked\<close>

lemma add_project_existing:
  assumes ids: "distinct (map proj_id tbl)" and pids: "distinct (map proj_projectId tbl)"
      and p: "p \<in> set tbl" and pid: "proj_projectId p = ctx_projectId ctx"
  shows "createAddTrackedProject now tbl ctx =
           (Inr (project_out_of (spec_refreshed_project (ctx_title ctx) p)),
            map (\<lambda>r. if r = p then spec_refreshed_project (ctx_title ctx) p else r) tbl)"
proof -
  have ex: "db_limit (Suc 0) (db_select (\<lambda>q. proj_projectId q = ctx_projectId ctx) tbl) = [p]"
    using select_limit_unique [OF pids p] pid by simp
  show ?thesis
  proof (cases "proj_isActive p = 0")
    case True
    have "p\<lparr>proj_isActive := 1, proj_title := ctx_title ctx\<rparr>
            = spec_refreshed_project (ctx_title ctx) p"
      using True by (simp add: spec_refreshed_project_def)
    then show ?thesis
      using True
      by (simp add: createAddTrackedProject_def ex update_unique [OF ids p] first_row_def)
  next
    case False
    have "p\<lparr>proj_title := ctx_title ctx\<rparr> = spec_refreshed_project (ctx_title ctx) p"
      using False by (simp add: spec_refreshed_project_def)
    then show ?thesis
      using False
      by (simp add: createAddTrackedProject_def ex update_unique [OF ids p] first_row_def)
  qed
qed

lemma add_project_keeps_projectIds:
  assumes pids: "distinct (map proj_projectId tbl)"
  shows "distinct (map proj_projectId (snd (createAddTrackedProject now tbl ctx)))"
proof (cases "db_limit 1 (db_select (\<lambda>q. proj_projectId q = ctx_projectId ctx) tbl)")
  case Nil
  then have n: "db_limit (Suc 0) (db_select (\<lambda>q. proj_projectId q = ctx_projectId ctx) tbl) = []"
    by simp
  then have "\<forall>r\<in>set tbl. proj_projectId r \<noteq> ctx_projectId ctx"
    by (simp add: select_limit_empty)
  then have "ctx_projectId ctx \<notin> set (map proj_projectId tbl)" by auto
  with pids show ?thesis
    by (simp add: createAddTrackedProject_def db_insert_def n)
next
  case (Cons q qs)
  then have c: "db_limit (Suc 0) (db_select (\<lambda>q. proj_projectId q = ctx_projectId ctx) tbl) = q # qs"
    by simp
  show ?thesis using pids
    by (simp add: createAddTrackedProject_def split_def Let_def c update_keeps_projection)
qed

lemma add_project_keeps_ids:
  assumes ids: "distinct (map proj_id tbl)"
  shows "distinct (map proj_id (snd (createAddTrackedProject now tbl ctx)))"
proof (cases "db_limit 1 (db_select (\<lambda>q. proj_projectId q = ctx_projectId ctx) tbl)")
  case Nil
  then have n: "db_limit (Suc 0) (db_select (\<lambda>q. proj_projectId q = ctx_projectId ctx) tbl) = []"
    by simp
  with ids next_rowid_fresh [of "map proj_id tbl"] show ?thesis
    by (simp add: createAddTrackedProject_def db_insert_def n)
next
  case (Cons q qs)
  then have c: "db_limit (Suc 0) (db_select (\<lambda>q. proj_projectId q = ctx_projectId ctx) tbl) = q # qs"
    by simp
  show ?thesis using ids
    by (simp add: createAddTrackedProject_def split_def Let_def c update_keeps_projection)
qed

lemma add_project_no_insert:
  assumes "\<exists>p\<in>set tbl. proj_projectId p = ctx_projectId ctx"
  shows "length (snd (createAddTrackedProject now tbl ctx)) = length tbl"
proof (cases "db_limit 1 (db_select (\<lambda>q. proj_projectId q = ctx_projectId ctx) tbl)")
  case Nil
  then have "db_limit (Suc 0) (db_select (\<lambda>q. proj_projectId q = ctx_projectId ctx) tbl) = []"
    by simp
  with assms show ?thesis by (simp add: select_limit_empty)
next
  case (Cons q qs)
  then have c: "db_limit (Suc 0) (db_select (\<lambda>q. proj_projectId q = ctx_projectId ctx) tbl) = q # qs"
    by simp
  show ?thesis
    by (simp add: createAddTrackedProject_def split_def Let_def c update_length)
qed

lemma refreshed_project_out:
  "project_out_of (spec_refreshed_project t p) =
     \<lparr>pout_id = proj_id p, pout_projectId = proj_projectId p, pout_title = t,
      pout_organizationLogin = proj_organizationLogin p,
      pout_isActive = (proj_isActive p = 0 \<or> proj_isActive p = 1),
      pout_createdAt = proj_createdAt p\<rparr>"
  by (simp add: project_out_of_def spec_refreshed_project_def)

text \<open>
  C8. In every state of the table, ADD_TRACKED_PROJECT inserts no row when a row with the
  given project node id exists. On a table that respects its primary key and the unique
  index on \<open>projectId\<close> the call leaves a table that still respects both, so
  \<open>projectId\<close> never holds a value twice; and the existing row is replaced in place by
  itself with the title of the call and with \<open>isActive\<close> 1 if it was 0, the other
  rows staying as they are. The tool returns that row: its id, project node id,
  organization and creation time, the title of the call, and \<open>isActive\<close> true exactly
  when the row was inactive (0) or active (1) before.
\<close>

theorem add_project_existing_row:
  "((\<exists>p\<in>set tbl. proj_projectId p = ctx_projectId ctx) \<longrightarrow>
      length (snd (createAddTrackedProject now tbl ctx)) = length tbl) \<and>
   (distinct (map proj_projectId tbl) \<longrightarrow>
      distinct (map proj_projectId (snd (createAddTrackedProject now tbl ctx)))) \<and>
   (distinct (map proj_id tbl) \<longrightarrow>
      distinct (map proj_id (snd (createAddTrackedProject now tbl ctx)))) \<and>
   (distinct (map proj_id tbl) \<and> distinct (map proj_projectId tbl) \<longrightarrow>
      (\<forall>p\<in>set tbl. proj_projectId p = ctx_projectId ctx \<longrightarrow>
         createAddTrackedProject now tbl ctx =
           (Inr \<lparr>pout_id = proj_id p, pout_projectId = proj_projectId p,
                 pout_title = ctx_title ctx,
                 pout_organizationLogin = proj_organizationLogin p,
                 pout_isActive = (proj_isActive p = 0 \<or> proj_isActive p = 1),
                 pout_createdAt = proj_createdAt p\<rparr>,
            map (\<lambda>r. if r = p then spec_refreshed_project (ctx_title ctx) p else r) tbl)))"
  using add_project_existing [of tbl _ ctx now] add_project_no_insert [of tbl ctx now]
    add_project_keeps_projectIds [of tbl now ctx] add_project_keeps_ids [of tbl now ctx]
  unfolding refreshed_project_out
  by blast

theorem add_project_existing_row_witness:
  "createAddTrackedProject 500
     [\<lparr>proj_id = 7, proj_projectId = ''PVT_a'', proj_title = ''Roadmap'',
       proj_organizationLogin = ''deco-cx'', proj_isActive = 0, proj_createdAt = 100\<rparr>,
      \<lparr>proj_id = 8, proj_projectId = ''PVT_b'', proj_title = ''Bugs'',
       proj_organizationLogin = ''deco-cx'', proj_isActive = 1, proj_createdAt = 200\<rparr>]
     \<lparr>ctx_projectId = ''PVT_a'', ctx_title = ''Roadmap 2025'', ctx_organizationLogin = ''other''\<rparr>
   = (Inr \<lparr>pout_id = 7, pout_projectId = ''PVT_a'', pout_title = ''Roadmap 2025'',
            pout_organizationLogin = ''deco-cx'', pout_isActive = True, pout_createdAt = 100\<rparr>,
      [\<lparr>proj_id = 7, proj_projectId = ''PVT_a'', proj_title = ''Roadmap 2025'',
        proj_organizationLogin = ''deco-cx'', proj_isActive = 1, proj_createdAt = 100\<rparr>,
       \<lparr>proj_id = 8, proj_projectId = ''PVT_b'', proj_title = ''Bugs'',
        proj_organizationLogin = ''deco-cx'', proj_isActive = 1, proj_createdAt = 200\<rparr>])"
  using add_project_existing_row
    [where tbl = "[\<lparr>proj_id = 7, proj_projectId = ''PVT_a'', proj_title = ''Roadmap'',
            proj_organizationLogin = ''deco-cx'', proj_isActive = 0, proj_createdAt = 100\<rparr>,
          \<lparr>proj_id = 8, proj_projectId = ''PVT_b'', proj_title = ''Bugs'',
            proj_organizationLogin = ''deco-cx'', proj_isActive = 1, proj_createdAt = 200\<rparr>]"
       and now = 500
       and ctx = "\<lparr>ctx_projectId = ''PVT_a'', ctx_title = ''Roadmap 2025'',
          ctx_organizationLogin = ''other''\<rparr>"]
  by (simp add: spec_refreshed_project_def project_out_of_def)

subsection \<open>What reactivation and soft delete leave alone\<close>

lemma add_repository_frame:
  "length tbl \<le> length (snd (createAddTrackedRepository now tbl ctx)) \<and>
   map repository_fixed_fields (take (length tbl) (snd (createAddTrackedRepository now tbl ctx)))
     = map repository_fixed_fields tbl"
  by (simp add: createAddTrackedRepository_def Let_def split_def db_insert_def update_length
        update_keeps_projection repository_fixed_fields_def split: option.splits)

lemma add_project_frame:
  "length tbl \<le> length (snd (createAddTrackedProject now tbl ctx)) \<and>
   map project_fixed_fields (take (length tbl) (snd (createAddTrackedProject now tbl ctx)))
     = map project_fixed_fields tbl"
  by (simp add: createAddTrackedProject_def Let_def split_def db_insert_def update_length
        update_keeps_projection project_fixed_fields_def split: list.splits)

lemma remove_repository_frame:
  "map repository_fixed_fields
     (snd (createRemoveTrackedRepository tbl \<lparr>ctx_id = i, ctx_hardDelete = False\<rparr>))
     = map repository_fixed_fields tbl"
  by (simp add: createRemoveTrackedRepository_def Let_def
        update_keeps_projection repository_fixed_fields_def)

lemma remove_project_frame:
  "map project_fixed_fields
     (snd (createRemoveTrackedProject tbl \<lparr>ctx_id = i, ctx_hardDelete = False\<rparr>))
     = map project_fixed_fields tbl"
  by (simp add: createRemoveTrackedProject_def Let_def
        update_keeps_projection project_fixed_fields_def)

text \<open>
  C10. After ADD_TRACKED_REPOSITORY or ADD_TRACKED_PROJECT every row of the old table is
  still at its position, and after a remove without \<open>hardDelete\<close> the table has the
  same rows at the same positions; in each case the rows have their old \<open>id\<close>,
  \<open>owner\<close> and \<open>name\<close> (repositories), \<open>projectId\<close> and \<open>organizationLogin\<close>
  (projects) and \<open>createdAt\<close>. An add can only append after the old rows.
\<close>

theorem tracking_fixed_fields_unchanged:
  "length rtbl \<le> length (snd (createAddTrackedRepository now rtbl rctx)) \<and>
   map repository_fixed_fields
       (take (length rtbl) (snd (createAddTrackedRepository now rtbl rctx)))
     = map repository_fixed_fields rtbl \<and>
   length ptbl \<le> length (snd (createAddTrackedProject now ptbl pctx)) \<and>
   map project_fixed_fields
       (take (length ptbl) (snd (createAddTrackedProject now ptbl pctx)))
     = map project_fixed_fields ptbl \<and>
   map repository_fixed_fields
       (snd (createRemoveTrackedRepository rtbl \<lparr>ctx_id = i, ctx_hardDelete = False\<rparr>))
     = map repository_fixed_fields rtbl \<and>
   map project_fixed_fields
       (snd (createRemoveTrackedProject ptbl \<lparr>ctx_id = j, ctx_hardDelete = False\<rparr>))
     = map project_fixed_fields ptbl"
  using add_repository_frame [of rtbl now rctx] add_project_frame [of ptbl now pctx]
    remove_repository_frame [of rtbl i] remove_project_frame [of ptbl j]
  by simp

section \<open>Properties of the GitHub client\<close>

subsection \<open>The arithmetic of the runtime\<close>

lemma foldl_decimal: "digits_to_nat s = decimal_value s"
  unfolding digits_to_nat_def
  by (induction s rule: rev_induct) (simp_all add: decimal_value_def)

lemma digit_not_white_space: "is_digit c \<Longrightarrow> \<not> is_white_space c"
  by (auto simp: is_digit_def is_white_space_def)

lemma digit_not_sign: "is_digit c \<Longrightarrow> c \<noteq> CHR ''+'' \<and> c \<noteq> CHR ''-''"
  by (auto simp: is_digit_def)

lemma round_to_double_exact: "v \<le> 2 ^ 53 \<Longrightarrow> round_to_double v = Some v"
  by (simp add: round_to_double_def)

lemma parseInt10_digits:
  assumes "h \<noteq> []" and "list_all is_digit h" and "decimal_value h \<le> 2 ^ 53"
  shows "parseInt10 h = Num (int (decimal_value h))"
proof -
  from assms obtain c t where h: "h = c # t" and c: "is_digit c" and t: "list_all is_digit t"
    by (cases h) auto
  have dw: "dropWhile is_white_space h = h"
    using h c by (simp add: digit_not_white_space)
  have tw: "takeWhile is_digit h = h"
    using assms(2) by (simp add: list_all_iff)
  have sg: "(case h of c # _ \<Rightarrow> if c = CHR ''-'' then - 1 else 1 | [] \<Rightarrow> (1 :: int)) = 1"
    using h digit_not_sign [OF c] by simp
  have rest: "(case h of c # t \<Rightarrow> if c = CHR ''+'' \<or> c = CHR ''-'' then t else h | [] \<Rightarrow> h) = h"
    using h digit_not_sign [OF c] by simp
  have "parseInt10 h =
          (if h = [] then NaN
           else if digits_to_nat h = 0 then (if (1 :: int) < 0 then NegZero else Num 0)
           else (case round_to_double (digits_to_nat h) of
                   None \<Rightarrow> if (1 :: int) < 0 then NegInfinity else PosInfinity
                 | Some d \<Rightarrow> Num (1 * int d)))"
    by (simp only: parseInt10_def dw Let_def sg rest tw)
  with assms(1) round_to_double_exact [OF assms(3)] show ?thesis
    by (simp add: foldl_decimal)
qed

text \<open>Rounding beyond \<open>2^53\<close>, the sign of zero, and overflow, on examples.\<close>

lemma parseInt10_examples:
  "parseInt10 ''9007199254740993'' = Num 9007199254740992"
  "parseInt10 ''  -12abc'' = Num (- 12)"
  "parseInt10 ''-0'' = NegZero"
  "parseInt10 ''Fri, 31 Dec 1999 23:59:59 GMT'' = NaN"
  by (simp_all add: parseInt10_def is_white_space_def is_digit_def digit_value_def
        digits_to_nat_def round_to_double_def bit_length.simps Let_def)

lemma string_positive_examples:
  "string_positive ''5''" "\<not> string_positive ''0''" "\<not> string_positive ''-5''"
  "\<not> string_positive ''abc''" "\<not> string_positive ''''" "string_positive '' 12 ''"
  "string_positive ''0x10''" "string_positive ''.5''" "\<not> string_positive ''5,6''"
  by (simp_all add: string_positive_def trim_def is_white_space_def
        unsigned_decimal_positive_def non_decimal_positive_def is_hex_digit_def
        is_digit_def digit_value_def digits_to_nat_def Let_def)

subsection \<open>Rate limiting\<close>

lemma graphqlQuery_result:
  "net sent (graphql_request token query variables) = Some r \<Longrightarrow>
   fst (graphqlQuery token net sent query variables) = graphql_result r"
  by (simp add: graphqlQuery_def Let_def)

lemma restRequest_result:
  "net sent (rest_request token endpoint options) = Some r \<Longrightarrow>
   fst (restRequest token net sent endpoint options) = rest_result r"
  by (simp add: restRequest_def Let_def)

lemma rate_limit_absent:
  "rate_limit_error None = Error ''Rate limit exceeded. Retry after null seconds.'' (Some (Num 60))"
  by (simp add: rate_limit_error_def)

lemma rate_limit_present:
  "h \<noteq> [] \<Longrightarrow> rate_limit_error (Some h)
     = Error (''Rate limit exceeded. Retry after '' @ h @ '' seconds.'') (Some (parseInt10 h))"
  by (simp add: rate_limit_error_def)

lemma rate_limit_empty:
  "rate_limit_error (Some []) = Error ''Rate limit exceeded. Retry after  seconds.'' (Some (Num 60))"
  by (simp add: rate_limit_error_def)

text \<open>
  C2, as stated, fails on a response whose \<open>Retry-After\<close> header is present with an
  empty value: \<open>retryAfter ? parseInt(retryAfter, 10) : 60\<close> is a truthiness test, so
  \<open>retryAfter\<close> is 60, which is not the value \<open>parseInt\<close> gives the header.
\<close>

theorem rate_limit_empty_header_counterexample:
  "(\<lambda>n. if n = ''Retry-After'' then Some '''' else None) ''Retry-After'' = Some '''' \<and>
   fst (graphqlQuery ''ghp_x''
          (\<lambda>sent req. Some \<lparr>status = 429, statusText = ''Too Many Requests'',
                             headers = (\<lambda>n. if n = ''Retry-After'' then Some '''' else None),
                             json = None\<rparr>)
          [] ''query { viewer { login } }'' [])
     = Inl (Error ''Rate limit exceeded. Retry after  seconds.'' (Some (Num 60))) \<and>
   parseInt10 '''' = NaN \<and>
   Num 60 \<noteq> parseInt10 ''''"
  by (simp add: graphqlQuery_def graphql_result_def rate_limit_error_def parseInt10_def)

text \<open>
  C2, amended. When the response has status 429, a GraphQL call and a REST call both
  throw the rate-limit error, whose \<open>retryAfter\<close> is 60 when the response has no
  \<open>Retry-After\<close> header or an empty one, and \<open>parseInt\<close> of the header in base 10
  when it has a non-empty one: the number the header denotes when it is a string of
  decimal digits denoting at most \<open>2^53\<close> (a larger number is rounded to the nearest
  double, and a header that does not start with a number gives \<open>NaN\<close>).
\<close>

theorem rate_limit_retry_after:
  "(net sent (graphql_request token query variables) = Some r \<and> status r = 429 \<longrightarrow>
      (headers r ''Retry-After'' = None \<longrightarrow>
         fst (graphqlQuery token net sent query variables)
           = Inl (Error ''Rate limit exceeded. Retry after null seconds.'' (Some (Num 60)))) \<and>
      (headers r ''Retry-After'' = Some [] \<longrightarrow>
         fst (graphqlQuery token net sent query variables)
           = Inl (Error ''Rate limit exceeded. Retry after  seconds.'' (Some (Num 60)))) \<and>
      (\<forall>h. headers r ''Retry-After'' = Some h \<and> h \<noteq> [] \<longrightarrow>
         fst (graphqlQuery token net sent query variables)
           = Inl (Error (''Rate limit exceeded. Retry after '' @ h @ '' seconds.'')
                        (Some (parseInt10 h))) \<and>
         (list_all is_digit h \<and> decimal_value h \<le> 2 ^ 53 \<longrightarrow>
            parseInt10 h = Num (int (decimal_value h))))) \<and>
   (rnet rsent (rest_request rtoken endpoint options) = Some r' \<and> status r' = 429 \<longrightarrow>
      (headers r' ''Retry-After'' = None \<longrightarrow>
         fst (restRequest rtoken rnet rsent endpoint options)
           = Inl (Error ''Rate limit exceeded. Retry after null seconds.'' (Some (Num 60)))) \<and>
      (headers r' ''Retry-After'' = Some [] \<longrightarrow>
         fst (restRequest rtoken rnet rsent endpoint options)
           = Inl (Error ''Rate limit exceeded. Retry after  seconds.'' (Some (Num 60)))) \<and>
      (\<forall>h. headers r' ''Retry-After'' = Some h \<and> h \<noteq> [] \<longrightarrow>
         fst (restRequest rtoken rnet rsent endpoint options)
           = Inl (Error (''Rate limit exceeded. Retry after '' @ h @ '' seconds.'')
                        (Some (parseInt10 h))) \<and>
         (list_all is_digit h \<and> decimal_value h \<le> 2 ^ 53 \<longrightarrow>
            parseInt10 h = Num (int (decimal_value h)))))"
proof -
  have g: "status r = 429 \<Longrightarrow> graphql_result r = Inl (rate_limit_error (headers r ''Retry-After''))"
    by (simp add: graphql_result_def)
  have q: "status r' = 429 \<Longrightarrow> rest_result r' = Inl (rate_limit_error (headers r' ''Retry-After''))"
    by (simp add: rest_result_def)
  show ?thesis
    using g q
    by (auto simp: graphqlQuery_result restRequest_result rate_limit_absent rate_limit_present
          rate_limit_empty parseInt10_digits)
qed

theorem rate_limit_retry_after_witness:
  "fst (graphqlQuery ''ghp_x''
          (\<lambda>sent req. Some \<lparr>status = 429, statusText = ''Too Many Requests'',
                             headers = (\<lambda>n. if n = ''Retry-After'' then Some ''120'' else None),
                             json = None\<rparr>)
          [] ''query { viewer { login } }'' [])
     = Inl (Error ''Rate limit exceeded. Retry after 120 seconds.'' (Some (Num 120))) \<and>
   fst (restRequest ''ghp_x''
          (\<lambda>sent req. Some \<lparr>status = 429, statusText = ''Too Many Requests'',
                             headers = (\<lambda>n. None), json = None\<rparr>)
          [] ''/user'' \<lparr>init_method = None, init_headers = [], init_body = JUndefined\<rparr>)
     = Inl (Error ''Rate limit exceeded. Retry after null seconds.'' (Some (Num 60)))"
  using rate_limit_retry_after
    [of "\<lambda>sent req. Some \<lparr>status = 429, statusText = ''Too Many Requests'',
                            headers = (\<lambda>n. if n = ''Retry-After'' then Some ''120'' else None),
                            json = None\<rparr>"
        "[]" "''ghp_x''" "''query { viewer { login } }''" "[]"
        "\<lparr>status = 429, statusText = ''Too Many Requests'',
          headers = (\<lambda>n. if n = ''Retry-After'' then Some ''120'' else None), json = None\<rparr>"
        "\<lambda>sent req. Some \<lparr>status = 429, statusText = ''Too Many Requests'',
                            headers = (\<lambda>n. None), json = None\<rparr>"
        "[]" "''ghp_x''" "''/user''"
        "\<lparr>init_method = None, init_headers = [], init_body = JUndefined\<rparr>"
        "\<lparr>status = 429, statusText = ''Too Many Requests'', headers = (\<lambda>n. None), json = None\<rparr>"]
  by (simp add: is_digit_def decimal_value_def digit_value_def)

subsection \<open>Statuses other than 429 and 2xx\<close>

lemma graphql_error_ignores_body:
  "status r \<noteq> 429 \<Longrightarrow> \<not> ok r \<Longrightarrow>
   graphql_result r =
     Inl (Error (''GitHub API request failed: '' @ string_of_nat (status r) @ '' '' @ statusText r)
                None)"
  by (simp add: graphql_result_def)

lemma rest_error_carries_message:
  "status r \<noteq> 429 \<Longrightarrow> \<not> ok r \<Longrightarrow> json r = Some (JObj kvs) \<Longrightarrow>
   map_of kvs ''message'' = Some (JStr m) \<Longrightarrow> m \<noteq> [] \<Longrightarrow>
   rest_result r =
     Inl (Error (''GitHub REST API request failed: '' @ string_of_nat (status r) @ '' ''
                   @ statusText r @ '' - '' @ m) None)"
  by (simp add: rest_result_def rest_error_message_def)

text \<open>
  C4. On a status that is neither 429 nor 2xx, \<open>graphqlQuery\<close> throws an error made of
  the status code and the status text only; it never reads the body. For a 401 whose
  body is \<open>{"message": "Bad credentials"}\<close> the error does not carry the message,
  while \<open>restRequest\<close> on the same response appends it.
\<close>

theorem graphql_error_drops_body_message:
  "fst (graphqlQuery ''ghp_x''
          (\<lambda>sent req. Some \<lparr>status = 401, statusText = ''Unauthorized'', headers = (\<lambda>n. None),
                             json = Some (JObj [(''message'', JStr ''Bad credentials'')])\<rparr>)
          [] ''query { viewer { login } }'' [])
     = Inl (Error ''GitHub API request failed: 401 Unauthorized'' None) \<and>
   \<not> string_includes ''GitHub API request failed: 401 Unauthorized'' ''Bad credentials'' \<and>
   fst (restRequest ''ghp_x''
          (\<lambda>sent req. Some \<lparr>status = 401, statusText = ''Unauthorized'', headers = (\<lambda>n. None),
                             json = Some (JObj [(''message'', JStr ''Bad credentials'')])\<rparr>)
          [] ''/user'' \<lparr>init_method = None, init_headers = [], init_body = JUndefined\<rparr>)
     = Inl (Error ''GitHub REST API request failed: 401 Unauthorized - Bad credentials'' None)"
  by (simp add: graphqlQuery_def restRequest_def graphql_result_def rest_result_def
        rest_error_message_def ok_def string_of_nat.simps digit_char_def)

subsection \<open>2xx responses\<close>

lemma truthy_not_falsy: "truthy v = (\<not> spec_falsy v)"
  by (cases v) (simp_all add: spec_falsy_def)

lemma errors_test_not_in_force:
  "\<not> spec_errors_in_force e \<Longrightarrow>
   (if truthy e then length_positive e else Inr False) = Inr False"
  by (cases e)
     (auto simp: spec_errors_in_force_def length_positive_def to_number_positive_def
        split: option.splits js_value.splits)

lemma errors_test_in_force:
  "spec_errors_in_force e \<Longrightarrow>
   (if truthy e then length_positive e else Inr False) = Inr True \<or>
   (if truthy e then length_positive e else Inr False) = Inl cannot_convert"
  by (cases e)
     (auto simp: spec_errors_in_force_def length_positive_def to_number_positive_def
        split: option.splits js_value.splits)

lemma messages_of_wellformed_errors:
  "map_result (\<lambda>e. get_prop e ''message'') (map (\<lambda>m. JObj [(''message'', JStr m)]) ms)
     = Inr (map JStr ms)"
  by (induction ms) (simp_all add: on_success_def)

lemma element_to_string_strings: "map (element_to_string \<circ> JStr) ms = ms"
  by (induction ms) simp_all

lemma strings_convertible: "list_all convertible (map JStr ms)"
  by (induction ms) simp_all

lemma on_success_throws:
  "\<forall>y. \<exists>e. f y = Inl e \<Longrightarrow> \<exists>err. on_success x f = Inl err"
  by (cases x) (simp_all add: on_success_def)

lemma graphql_result_object:
  assumes "ok r" and "json r = Some (JObj kvs)"
  shows "graphql_result r =
           on_success (if truthy (spec_field kvs ''errors'')
                       then length_positive (spec_field kvs ''errors'') else Inr False)
             (\<lambda>present.
                if present then
                  on_success (js_map (\<lambda>e. get_prop e ''message'') (spec_field kvs ''errors''))
                    (\<lambda>messages.
                       if list_all convertible messages then
                         Inl (Error (''GraphQL errors: ''
                                       @ js_join '', '' (map element_to_string messages)) None)
                       else Inl cannot_convert)
                else if \<not> truthy (spec_field kvs ''data'') then
                  Inl (Error ''GraphQL response missing data'' None)
                else Inr (spec_field kvs ''data''))"
proof -
  from assms(1) have s: "status r \<noteq> 429" by (simp add: ok_def)
  show ?thesis
    using assms s
    by (simp add: graphql_result_def on_success_def spec_field_def split: sum.splits)
qed

lemma graphql_result_no_errors:
  assumes "ok r" and "json r = Some (JObj kvs)"
    and "\<not> spec_errors_in_force (spec_field kvs ''errors'')"
  shows "graphql_result r =
           (if spec_falsy (spec_field kvs ''data'') then
              Inl (Error ''GraphQL response missing data'' None)
            else Inr (spec_field kvs ''data''))"
  unfolding graphql_result_object [OF assms(1,2)] errors_test_not_in_force [OF assms(3)]
  by (simp add: on_success_def truthy_not_falsy)

lemma graphql_result_errors:
  assumes "ok r" and "json r = Some (JObj kvs)"
    and "spec_errors_in_force (spec_field kvs ''errors'')"
  shows "\<exists>err. graphql_result r = Inl err"
proof -
  have m: "\<exists>err. on_success (js_map (\<lambda>e. get_prop e ''message'') (spec_field kvs ''errors''))
                    (\<lambda>messages.
                       if list_all convertible messages then
                         Inl (Error (''GraphQL errors: ''
                                       @ js_join '', '' (map element_to_string messages)) None)
                       else Inl cannot_convert) = Inl err"
    by (rule on_success_throws) simp
  from errors_test_in_force [OF assms(3)] show ?thesis
  proof
    assume "(if truthy (spec_field kvs ''errors'')
             then length_positive (spec_field kvs ''errors'') else Inr False) = Inr True"
    then show ?thesis
      unfolding graphql_result_object [OF assms(1,2)] using m by (simp add: on_success_def)
  next
    assume "(if truthy (spec_field kvs ''errors'')
             then length_positive (spec_field kvs ''errors'') else Inr False) = Inl cannot_convert"
    then show ?thesis
      unfolding graphql_result_object [OF assms(1,2)] by (simp add: on_success_def)
  qed
qed

lemma graphql_result_wellformed_errors:
  assumes "ok r" and "json r = Some (JObj kvs)" and "ms \<noteq> []"
    and "spec_field kvs ''errors'' = JArr (map (\<lambda>m. JObj [(''message'', JStr m)]) ms)"
  shows "graphql_result r = Inl (Error (''GraphQL errors: '' @ js_join '', '' ms) None)"
  unfolding graphql_result_object [OF assms(1,2)] assms(4)
  using assms(3)
  by (simp add: length_positive_def js_map_def messages_of_wellformed_errors on_success_def
        element_to_string_strings strings_convertible)

text \<open>
  C5, as stated, fails on a response whose \<open>data\<close> is present and falsy, and on one
  whose \<open>errors\<close> is not an array: with the body \<open>{"data": 0}\<close> there are no errors
  and \<open>data\<close> is not absent, yet the call throws instead of returning \<open>0\<close>; with
  \<open>{"errors": "x", "data": {"viewer": null}}\<close> there is no errors array and \<open>data\<close> is
  present, yet the call throws on \<open>result.errors.map\<close>.
\<close>

theorem graphql_falsy_data_counterexample:
  "fst (graphqlQuery ''ghp_x''
          (\<lambda>sent req. Some \<lparr>status = 200, statusText = ''OK'', headers = (\<lambda>n. None),
                             json = Some (JObj [(''data'', JNum 0)])\<rparr>)
          [] ''query { viewer { login } }'' [])
     = Inl (Error ''GraphQL response missing data'' None) \<and>
   fst (graphqlQuery ''ghp_x''
          (\<lambda>sent req. Some \<lparr>status = 200, statusText = ''OK'', headers = (\<lambda>n. None),
                             json = Some (JObj [(''data'', JNum 0)])\<rparr>)
          [] ''query { viewer { login } }'' [])
     \<noteq> Inr (JNum 0) \<and>
   (\<exists>m. fst (graphqlQuery ''ghp_x''
          (\<lambda>sent req. Some \<lparr>status = 200, statusText = ''OK'', headers = (\<lambda>n. None),
                             json = Some (JObj [(''errors'', JStr ''x''),
                                                (''data'', JObj [(''viewer'', JNull)])])\<rparr>)
          [] ''query { viewer { login } }'' [])
     = Inl (TypeError m)) \<and>
   fst (graphqlQuery ''ghp_x''
          (\<lambda>sent req. Some \<lparr>status = 200, statusText = ''OK'', headers = (\<lambda>n. None),
                             json = Some (JObj [(''errors'', JStr ''x''),
                                                (''data'', JObj [(''viewer'', JNull)])])\<rparr>)
          [] ''query { viewer { login } }'' [])
     \<noteq> Inr (JObj [(''viewer'', JNull)])"
  by (simp add: graphqlQuery_def graphql_result_def ok_def on_success_def js_map_def
        length_positive_def)

text \<open>
  C5, amended. On a 2xx response with a parsed body, the call throws an error if the body
  is \<open>null\<close>; if the \<open>errors\<close> field of the body is a non-empty array (the error
  then lists the messages of the array's elements), a non-empty string, or an object
  with a \<open>length\<close> that is greater than 0 or cannot be compared with 0; if
  \<open>data\<close> is absent or falsy (\<open>null\<close>, \<open>false\<close>, \<open>0\<close>, the empty
  string); and if the body is not an object at all, which then has no \<open>data\<close>.
  Otherwise it returns exactly \<open>data\<close>.
\<close>

theorem graphql_success_result:
  "net sent (graphql_request token query variables) = Some r \<and> ok r \<and> json r = Some body \<longrightarrow>
     (body = JNull \<or> body = JUndefined \<longrightarrow>
        (\<exists>m. fst (graphqlQuery token net sent query variables) = Inl (TypeError m))) \<and>
     (\<forall>kvs. body = JObj kvs \<longrightarrow>
        (spec_errors_in_force (spec_field kvs ''errors'') \<longrightarrow>
           (\<exists>err. fst (graphqlQuery token net sent query variables) = Inl err)) \<and>
        (\<forall>ms. ms \<noteq> [] \<and>
              spec_field kvs ''errors'' = JArr (map (\<lambda>m. JObj [(''message'', JStr m)]) ms) \<longrightarrow>
           fst (graphqlQuery token net sent query variables)
             = Inl (Error (''GraphQL errors: '' @ js_join '', '' ms) None)) \<and>
        (\<not> spec_errors_in_force (spec_field kvs ''errors'') \<and> spec_falsy (spec_field kvs ''data'') \<longrightarrow>
           fst (graphqlQuery token net sent query variables)
             = Inl (Error ''GraphQL response missing data'' None)) \<and>
        (\<not> spec_errors_in_force (spec_field kvs ''errors'') \<and>
         \<not> spec_falsy (spec_field kvs ''data'') \<longrightarrow>
           fst (graphqlQuery token net sent query variables) = Inr (spec_field kvs ''data''))) \<and>
     ((\<forall>kvs. body \<noteq> JObj kvs) \<and> body \<noteq> JNull \<and> body \<noteq> JUndefined \<longrightarrow>
        fst (graphqlQuery token net sent query variables)
          = Inl (Error ''GraphQL response missing data'' None))"
proof (intro impI, elim conjE)
  assume n: "net sent (graphql_request token query variables) = Some r"
    and o: "ok r" and j: "json r = Some body"
  let ?res = "fst (graphqlQuery token net sent query variables)"
  have res: "?res = graphql_result r" by (simp add: graphqlQuery_def Let_def n)
  from o have s: "status r \<noteq> 429" by (simp add: ok_def)
  have a: "body = JNull \<or> body = JUndefined \<longrightarrow> (\<exists>m. ?res = Inl (TypeError m))"
    using o s j by (auto simp: res graphql_result_def on_success_def)
  have c: "(\<forall>kvs. body \<noteq> JObj kvs) \<and> body \<noteq> JNull \<and> body \<noteq> JUndefined \<longrightarrow>
        ?res = Inl (Error ''GraphQL response missing data'' None)"
    using o s j by (cases body) (auto simp: res graphql_result_def on_success_def)
  have b: "\<forall>kvs. body = JObj kvs \<longrightarrow>
        (spec_errors_in_force (spec_field kvs ''errors'') \<longrightarrow> (\<exists>err. ?res = Inl err)) \<and>
        (\<forall>ms. ms \<noteq> [] \<and>
              spec_field kvs ''errors'' = JArr (map (\<lambda>m. JObj [(''message'', JStr m)]) ms) \<longrightarrow>
           ?res = Inl (Error (''GraphQL errors: '' @ js_join '', '' ms) None)) \<and>
        (\<not> spec_errors_in_force (spec_field kvs ''errors'') \<and> spec_falsy (spec_field kvs ''data'') \<longrightarrow>
           ?res = Inl (Error ''GraphQL response missing data'' None)) \<and>
        (\<not> spec_errors_in_force (spec_field kvs ''errors'') \<and>
         \<not> spec_falsy (spec_field kvs ''data'') \<longrightarrow>
           ?res = Inr (spec_field kvs ''data''))"
  proof (intro allI impI)
    fix kvs
    assume k: "body = JObj kvs"
    note j' = j [unfolded k]
    have w: "\<And>ms. ms \<noteq> [] \<Longrightarrow>
          spec_field kvs ''errors'' = JArr (map (\<lambda>m. JObj [(''message'', JStr m)]) ms) \<Longrightarrow>
          ?res = Inl (Error (''GraphQL errors: '' @ js_join '', '' ms) None)"
      unfolding res by (rule graphql_result_wellformed_errors [OF o j'])
    have t: "spec_errors_in_force (spec_field kvs ''errors'') \<Longrightarrow> \<exists>err. ?res = Inl err"
      unfolding res by (rule graphql_result_errors [OF o j'])
    have d: "\<not> spec_errors_in_force (spec_field kvs ''errors'') \<Longrightarrow>
          ?res = (if spec_falsy (spec_field kvs ''data'') then
                    Inl (Error ''GraphQL response missing data'' None)
                  else Inr (spec_field kvs ''data''))"
      unfolding res by (rule graphql_result_no_errors [OF o j'])
    show "(spec_errors_in_force (spec_field kvs ''errors'') \<longrightarrow> (\<exists>err. ?res = Inl err)) \<and>
        (\<forall>ms. ms \<noteq> [] \<and>
              spec_field kvs ''errors'' = JArr (map (\<lambda>m. JObj [(''message'', JStr m)]) ms) \<longrightarrow>
           ?res = Inl (Error (''GraphQL errors: '' @ js_join '', '' ms) None)) \<and>
        (\<not> spec_errors_in_force (spec_field kvs ''errors'') \<and> spec_falsy (spec_field kvs ''data'') \<longrightarrow>
           ?res = Inl (Error ''GraphQL response missing data'' None)) \<and>
        (\<not> spec_errors_in_force (spec_field kvs ''errors'') \<and>
         \<not> spec_falsy (spec_field kvs ''data'') \<longrightarrow>
           ?res = Inr (spec_field kvs ''data''))"
      using w t d by auto
  qed
  from a b c show
    "(body = JNull \<or> body = JUndefined \<longrightarrow> (\<exists>m. ?res = Inl (TypeError m))) \<and>
     (\<forall>kvs. body = JObj kvs \<longrightarrow>
        (spec_errors_in_force (spec_field kvs ''errors'') \<longrightarrow> (\<exists>err. ?res = Inl err)) \<and>
        (\<forall>ms. ms \<noteq> [] \<and>
              spec_field kvs ''errors'' = JArr (map (\<lambda>m. JObj [(''message'', JStr m)]) ms) \<longrightarrow>
           ?res = Inl (Error (''GraphQL errors: '' @ js_join '', '' ms) None)) \<and>
        (\<not> spec_errors_in_force (spec_field kvs ''errors'') \<and> spec_falsy (spec_field kvs ''data'') \<longrightarrow>
           ?res = Inl (Error ''GraphQL response missing data'' None)) \<and>
        (\<not> spec_errors_in_force (spec_field kvs ''errors'') \<and>
         \<not> spec_falsy (spec_field kvs ''data'') \<longrightarrow>
           ?res = Inr (spec_field kvs ''data''))) \<and>
     ((\<forall>kvs. body \<noteq> JObj kvs) \<and> body \<noteq> JNull \<and> body \<noteq> JUndefined \<longrightarrow>
        ?res = Inl (Error ''GraphQL response missing data'' None))"
    by blast
qed

theorem graphql_success_result_witness:
  "fst (graphqlQuery ''ghp_x''
          (\<lambda>sent req. Some \<lparr>status = 200, statusText = ''OK'', headers = (\<lambda>n. None),
                 json = Some (JObj [(''data'',
                                     JObj [(''viewer'', JObj [(''login'', JStr ''octocat'')])])])\<rparr>)
          [] ''query { viewer { login } }'' [])
     = Inr (JObj [(''viewer'', JObj [(''login'', JStr ''octocat'')])]) \<and>
   fst (graphqlQuery ''ghp_x''
          (\<lambda>sent req. Some \<lparr>status = 200, statusText = ''OK'', headers = (\<lambda>n. None),
                 json = Some (JObj [(''errors'', JArr [JObj [(''message'', JStr ''Not found'')],
                                                        JObj [(''message'', JStr ''Forbidden'')]]),
                                    (''data'', JNull)])\<rparr>)
          [] ''query { viewer { login } }'' [])
     = Inl (Error ''GraphQL errors: Not found, Forbidden'' None)"
proof -
  have a: "fst (graphqlQuery ''ghp_x''
          (\<lambda>sent req. Some \<lparr>status = 200, statusText = ''OK'', headers = (\<lambda>n. None),
                 json = Some (JObj [(''data'',
                                     JObj [(''viewer'', JObj [(''login'', JStr ''octocat'')])])])\<rparr>)
          [] ''query { viewer { login } }'' [])
     = Inr (JObj [(''viewer'', JObj [(''login'', JStr ''octocat'')])])"
    using graphql_success_result
      [where net = "\<lambda>sent req. Some \<lparr>status = 200, statusText = ''OK'', headers = (\<lambda>n. None),
                 json = Some (JObj [(''data'',
                                     JObj [(''viewer'', JObj [(''login'', JStr ''octocat'')])])])\<rparr>"
         and sent = "[]" and token = "''ghp_x''" and query = "''query { viewer { login } }''"
         and variables = "[]"
         and r = "\<lparr>status = 200, statusText = ''OK'', headers = (\<lambda>n. None),
                 json = Some (JObj [(''data'',
                                     JObj [(''viewer'', JObj [(''login'', JStr ''octocat'')])])])\<rparr>"
         and body = "JObj [(''data'', JObj [(''viewer'', JObj [(''login'', JStr ''octocat'')])])]"]
    by (simp add: ok_def spec_field_def spec_falsy_def spec_errors_in_force_def)
  have b: "fst (graphqlQuery ''ghp_x''
          (\<lambda>sent req. Some \<lparr>status = 200, statusText = ''OK'', headers = (\<lambda>n. None),
                 json = Some (JObj [(''errors'', JArr [JObj [(''message'', JStr ''Not found'')],
                                                        JObj [(''message'', JStr ''Forbidden'')]]),
                                    (''data'', JNull)])\<rparr>)
          [] ''query { viewer { login } }'' [])
     = Inl (Error ''GraphQL errors: Not found, Forbidden'' None)"
    by (simp add: graphqlQuery_def graphql_result_def ok_def on_success_def js_map_def
          length_positive_def)
  from a b show ?thesis by simp
qed

section \<open>Properties of the GitHub tools\<close>

lemma with_client_no_token:
  "e = None \<or> (\<exists>st. e = Some st \<and> (githubToken st = None \<or> githubToken st = Some [])) \<Longrightarrow>
   with_client e f = (Inl token_not_configured, [])"
  by (auto simp: with_client_def)

lemma execute_no_token:
  assumes "e = None \<or> (\<exists>st. e = Some st \<and> (githubToken st = None \<or> githubToken st = Some []))"
  shows "execute e net call = (Inl token_not_configured, [])"
proof -
  have w: "\<And>f. with_client e f = (Inl token_not_configured, [])"
    using assms by (rule with_client_no_token)
  show ?thesis
    by (cases call)
       (simp_all add: w
          createListIssues_def createGetIssue_def createCreateIssue_def createUpdateIssue_def
          createCloseIssue_def createAddIssueComment_def createListIssueComments_def
          createAddLabelsToIssue_def createRemoveLabelsFromIssue_def createAssignIssue_def
          createUnassignIssue_def createListGitHubProjects_def createGetProjectDetails_def
          createCreateProject_def createUpdateProject_def createDeleteProject_def
          createListProjectItems_def createAddItemToProject_def)
qed

text \<open>
  C9. When the request context carries no GitHub token (there is no context state, the
  state has no token, or the token is the empty string), every issue tool and every
  project tool throws the configuration error, and no request has been sent. The same
  holds of a user tool as the specification describes one.
\<close>

theorem github_tools_require_token:
  assumes "e = None \<or> (\<exists>st. e = Some st \<and> (githubToken st = None \<or> githubToken st = Some []))"
  shows "execute e net call =
           (Inl (Error ''GitHub token not configured. Please configure your app with a GitHub Personal Access Token.'' None), []) \<and>
         spec_user_tool document variables reshape e net =
           (Inl (Error ''GitHub token not configured. Please configure your app with a GitHub Personal Access Token.'' None), [])"
  using execute_no_token [OF assms, of net call] with_client_no_token [OF assms]
  by (simp add: token_not_configured_def spec_user_tool_def)

theorem github_tools_require_token_witness:
  "execute (Some \<lparr>githubToken = None, defaultOrganization = Some ''deco-cx''\<rparr>)
           (\<lambda>sent req. None)
           (CREATE_ISSUE \<lparr>owner = ''deco-cx'', repo = ''deco'', ci_title = ''Bug'', ci_body = None,
                           ci_assigneeIds = None, ci_labelIds = None, ci_milestoneId = None\<rparr>)
     = (Inl (Error ''GitHub token not configured. Please configure your app with a GitHub Personal Access Token.'' None), []) \<and>
   execute None (\<lambda>sent req. None) (DELETE_PROJECT \<lparr>projectId = ''PVT_a''\<rparr>)
     = (Inl (Error ''GitHub token not configured. Please configure your app with a GitHub Personal Access Token.'' None), [])"
  using github_tools_require_token
    [of "Some \<lparr>githubToken = None, defaultOrganization = Some ''deco-cx''\<rparr>"
        "\<lambda>sent req. None"
        "CREATE_ISSUE \<lparr>owner = ''deco-cx'', repo = ''deco'', ci_title = ''Bug'', ci_body = None,
                           ci_assigneeIds = None, ci_labelIds = None, ci_milestoneId = None\<rparr>"]
    github_tools_require_token
    [of None "\<lambda>sent req. None" "DELETE_PROJECT \<lparr>projectId = ''PVT_a''\<rparr>"]
  by simp

lemma snd_then_call_mono: "snd (then_return r f) = snd r"
  by (cases r) (auto simp: then_return_def then_call_def split: sum.splits)

lemma snd_graphqlQuery:
  "snd (graphqlQuery token net sent query variables)
     = sent @ [graphql_request token query variables]"
  by (simp add: graphqlQuery_def Let_def)

lemma map_of_filter_values:
  "distinct (map fst kvs) \<Longrightarrow>
   map_of (filter (\<lambda>(k, v). P v) kvs) k
     = (case map_of kvs k of None \<Rightarrow> None | Some v \<Rightarrow> if P v then Some v else None)"
proof (induction kvs)
  case Nil
  then show ?case by simp
next
  case (Cons a kvs)
  obtain k' v' where a: "a = (k', v')" by (cases a)
  from Cons.prems a have nk: "k' \<notin> fst ` set kvs" and d: "distinct (map fst kvs)" by auto
  from nk have none: "map_of kvs k' = None" by (simp add: map_of_eq_None_iff)
  show ?case
    using Cons.IH [OF d] a none by (auto split: option.splits)
qed

lemma first_variable_graphql_request:
  assumes "distinct (map fst variables)"
  shows "first_variable (graphql_request token query variables)
           = (case map_of variables ''first'' of None \<Rightarrow> JUndefined | Some v \<Rightarrow> v)"
  using map_of_filter_values [OF assms, of "\<lambda>v. v \<noteq> JUndefined" "''first''"]
  by (simp add: first_variable_def graphql_request_def stringify_object_def
        split: option.splits)

lemma page_size_cases:
  "page_size n = (if 100 < n then 100 else if n = 0 then 20 else n)"
  by (simp add: page_size_def)

lemma paginated_call_sends_request:
  assumes "e = Some st" and "githubToken st = Some token" and "token \<noteq> []"
      and "requested_first call = Some n"
      and "\<And>c. call = LIST_GITHUB_PROJECTS c \<Longrightarrow> orgLogin_of (lp_organizationLogin c) st \<noteq> None"
  shows "length (snd (execute e net call)) = 1"
proof -
  have w: "\<And>f. with_client e f = f st token"
    using assms(1-3) by (simp add: with_client_def)
  show ?thesis
  proof (cases call)
    case (LIST_ISSUES c)
    then show ?thesis
      by (simp add: createListIssues_def w snd_then_call_mono snd_graphqlQuery)
  next
    case (LIST_ISSUE_COMMENTS c)
    then show ?thesis
      by (simp add: createListIssueComments_def w snd_then_call_mono snd_graphqlQuery)
  next
    case (LIST_GITHUB_PROJECTS c)
    with assms(5) [of c] show ?thesis
      by (auto simp: createListGitHubProjects_def w snd_then_call_mono snd_graphqlQuery)
  next
    case (LIST_PROJECT_ITEMS c)
    then show ?thesis
      by (simp add: createListProjectItems_def w snd_then_call_mono snd_graphqlQuery)
  qed (use assms(4) in simp_all)
qed

text \<open>
  C3, amended. A call of LIST_ISSUES, LIST_ISSUE_COMMENTS, LIST_GITHUB_PROJECTS or
  LIST_PROJECT_ITEMS that reaches GitHub sends one request, whose page size is 100 when
  the \<open>first\<close> of the input is greater than 100, the default 20 when it is 0, and the
  input value itself otherwise.
\<close>

theorem page_size_sent:
  assumes "requested_first call = Some n" and "snd (execute e net call) \<noteq> []"
  shows "map first_variable (snd (execute e net call))
           = [JNum (if 100 < n then 100 else if n = 0 then 20 else n)]"
proof -
  from assms obtain st token where e: "e = Some st" "githubToken st = Some token" "token \<noteq> []"
    using execute_no_token [of e net call]
    by (cases e) (auto, metis option.exhaust snd_conv)
  have w: "\<And>f. with_client e f = f st token"
    using e by (simp add: with_client_def)
  show ?thesis
  proof (cases call)
    case (LIST_ISSUES c)
    with assms(1) show ?thesis
      by (simp add: createListIssues_def w snd_then_call_mono snd_graphqlQuery
            first_variable_graphql_request page_size_cases)
  next
    case (LIST_ISSUE_COMMENTS c)
    with assms(1) show ?thesis
      by (simp add: createListIssueComments_def w snd_then_call_mono snd_graphqlQuery
            first_variable_graphql_request page_size_cases)
  next
    case (LIST_GITHUB_PROJECTS c)
    with assms show ?thesis
      by (simp add: createListGitHubProjects_def w snd_then_call_mono snd_graphqlQuery
            first_variable_graphql_request page_size_cases split: option.splits)
  next
    case (LIST_PROJECT_ITEMS c)
    with assms(1) show ?thesis
      by (simp add: createListProjectItems_def w snd_then_call_mono snd_graphqlQuery
            first_variable_graphql_request page_size_cases)
  qed (use assms(1) in simp_all)
qed

text \<open>
  C3, as stated, fails at \<open>first = 0\<close>: 0 is at most 100, but \<open>context.first || 20\<close>
  takes it for missing and the request asks for 20.
\<close>

theorem page_size_zero_counterexample:
  "requested_first
     (LIST_ISSUES \<lparr>owner = ''deco-cx'', repo = ''deco'', li_state = None, li_labels = None,
                    li_assignee = None, li_first = 0\<rparr>) = Some 0 \<and>
   (0 :: int) \<le> 100 \<and>
   map first_variable
     (snd (execute (Some \<lparr>githubToken = Some ''ghp_x'', defaultOrganization = None\<rparr>)
             (\<lambda>sent req. None)
             (LIST_ISSUES \<lparr>owner = ''deco-cx'', repo = ''deco'', li_state = None, li_labels = None,
                            li_assignee = None, li_first = 0\<rparr>)))
     = [JNum 20] \<and>
   map first_variable
     (snd (execute (Some \<lparr>githubToken = Some ''ghp_x'', defaultOrganization = None\<rparr>)
             (\<lambda>sent req. None)
             (LIST_ISSUES \<lparr>owner = ''deco-cx'', repo = ''deco'', li_state = None, li_labels = None,
                            li_assignee = None, li_first = 0\<rparr>)))
     \<noteq> [JNum 0]"
  by (simp add: createListIssues_def with_client_def then_return_def then_call_def
        graphqlQuery_def graphql_request_def stringify_object_def first_variable_def
        page_size_def opt_strings_def)

theorem page_size_sent_witness:
  "map first_variable
     (snd (execute (Some \<lparr>githubToken = Some ''ghp_x'', defaultOrganization = None\<rparr>)
             (\<lambda>sent req. None)
             (LIST_PROJECT_ITEMS \<lparr>projectId = ''PVT_a'', lpi_first = 250\<rparr>)))
     = [JNum 100] \<and>
   map first_variable
     (snd (execute (Some \<lparr>githubToken = Some ''ghp_x'', defaultOrganization = Some ''deco-cx''\<rparr>)
             (\<lambda>sent req. None)
             (LIST_GITHUB_PROJECTS \<lparr>lp_organizationLogin = '''', lp_first = 5\<rparr>)))
     = [JNum 5]"
proof -
  have a: "snd (execute (Some \<lparr>githubToken = Some ''ghp_x'', defaultOrganization = None\<rparr>)
             (\<lambda>sent req. None)
             (LIST_PROJECT_ITEMS \<lparr>projectId = ''PVT_a'', lpi_first = 250\<rparr>)) \<noteq> []"
    by (simp add: createListProjectItems_def with_client_def then_return_def then_call_def
          graphqlQuery_def)
  have b: "snd (execute (Some \<lparr>githubToken = Some ''ghp_x'', defaultOrganization = Some ''deco-cx''\<rparr>)
             (\<lambda>sent req. None)
             (LIST_GITHUB_PROJECTS \<lparr>lp_organizationLogin = '''', lp_first = 5\<rparr>)) \<noteq> []"
    by (simp add: createListGitHubProjects_def with_client_def then_return_def then_call_def
          graphqlQuery_def orgLogin_of_def)
  show ?thesis
    using page_size_sent [OF _ a, of 250] page_size_sent [OF _ b, of 5]
    by simp
qed

end
